theory Spec2Isabelle
  imports Complex_Main "HOL-Library.Multiset" "HOL-Library.Char_ord" "HOL-Library.List_Lexorder"
begin

section \<open>JavaScript values\<close>

text \<open>
  The price finder (\<^verbatim>\<open>docs/js/hospital-price-finder.js\<close>) works on values produced by
  \<^verbatim>\<open>JSON.parse\<close> and by the form controls. A number is an IEEE double: it is modelled by its
  exact real value, with the three special values written out. The two zeros are one value
  here (both are falsy, and they compare equal in the source).
\<close>

datatype jsnum = NaN | NegInf | Fin real | PosInf

datatype jsval =
    JUndefined
  | JNull
  | JBool bool
  | JNum jsnum
  | JStr string
  | JArr "jsval list"
  | JObj "(string \<times> jsval) list"

text \<open>
  What the source takes from the JavaScript engine and from d3 is a parameter of the model:
  the conversions between strings and numbers, the regular-expression engine, the JSON
  parser, the number formatters, double-precision division and multiplication, and
  \<^verbatim>\<open>d3.geoDistance\<close>. \<open>RegExp_i p\<close> is \<^verbatim>\<open>new RegExp(p, 'i')\<close>: \<open>None\<close> when the constructor
  throws a SyntaxError, otherwise the \<^verbatim>\<open>test\<close> method of the compiled expression (without the
  \<^verbatim>\<open>g\<close> flag it keeps no state between calls). \<open>JSON_parse\<close> is \<open>None\<close> when the parser throws.
\<close>

record js_builtins =
  StringToNumber :: "string \<Rightarrow> jsnum"
  ObjectToNumber :: "jsval \<Rightarrow> jsnum"
  NumberToString :: "jsnum \<Rightarrow> string"
  ObjectToString :: "jsval \<Rightarrow> string"
  parseFloatString :: "string \<Rightarrow> jsnum"
  RegExp_i :: "string \<Rightarrow> (string \<Rightarrow> bool) option"
  JSON_parse :: "string \<Rightarrow> jsval option"
  toLocaleString :: "jsnum \<Rightarrow> string"
  toFixed2 :: "jsnum \<Rightarrow> string"
  fdiv :: "jsnum \<Rightarrow> jsnum \<Rightarrow> jsnum"
  fmul :: "jsnum \<Rightarrow> jsnum \<Rightarrow> jsnum"
  geoDistance :: "jsval \<times> jsval \<Rightarrow> jsval \<times> jsval \<Rightarrow> jsnum"

datatype js_error = TypeError | SyntaxError

subsection \<open>Truthiness, comparison, conversion\<close>

fun truthy_num :: "jsnum \<Rightarrow> bool" where
  "truthy_num NaN = False"
| "truthy_num (Fin x) = (x \<noteq> 0)"
| "truthy_num NegInf = True"
| "truthy_num PosInf = True"

fun truthy :: "jsval \<Rightarrow> bool" where
  "truthy JUndefined = False"
| "truthy JNull = False"
| "truthy (JBool b) = b"
| "truthy (JNum n) = truthy_num n"
| "truthy (JStr s) = (s \<noteq> [])"
| "truthy (JArr xs) = True"
| "truthy (JObj kvs) = True"

definition js_or :: "jsval \<Rightarrow> jsval \<Rightarrow> jsval" where
  "js_or a b = (if truthy a then a else b)"

definition js_and :: "jsval \<Rightarrow> jsval \<Rightarrow> jsval" where
  "js_and a b = (if truthy a then b else a)"

definition num_or :: "jsnum \<Rightarrow> jsnum \<Rightarrow> jsnum" where
  "num_or a b = (if truthy_num a then a else b)"

fun js_lt :: "jsnum \<Rightarrow> jsnum \<Rightarrow> bool" where
  "js_lt NaN b = False"
| "js_lt a NaN = False"
| "js_lt NegInf b = (b \<noteq> NegInf)"
| "js_lt a NegInf = False"
| "js_lt PosInf b = False"
| "js_lt a PosInf = True"
| "js_lt (Fin x) (Fin y) = (x < y)"

fun js_le :: "jsnum \<Rightarrow> jsnum \<Rightarrow> bool" where
  "js_le NaN b = False"
| "js_le a NaN = False"
| "js_le a b = (a = b \<or> js_lt a b)"

definition js_gt :: "jsnum \<Rightarrow> jsnum \<Rightarrow> bool" where
  "js_gt a b = js_lt b a"

definition js_ge :: "jsnum \<Rightarrow> jsnum \<Rightarrow> bool" where
  "js_ge a b = js_le b a"

text \<open>
  Subtraction is used by the sort comparator only, which reads the sign of the difference;
  on finite doubles the sign of the rounded difference is the sign of the exact one.
\<close>

fun js_sub :: "jsnum \<Rightarrow> jsnum \<Rightarrow> jsnum" where
  "js_sub NaN b = NaN"
| "js_sub a NaN = NaN"
| "js_sub PosInf PosInf = NaN"
| "js_sub NegInf NegInf = NaN"
| "js_sub PosInf b = PosInf"
| "js_sub NegInf b = NegInf"
| "js_sub a PosInf = NegInf"
| "js_sub a NegInf = PosInf"
| "js_sub (Fin x) (Fin y) = Fin (x - y)"

fun is_finite :: "jsnum \<Rightarrow> bool" where
  "is_finite (Fin x) = True"
| "is_finite n = False"

fun ToNumber :: "js_builtins \<Rightarrow> jsval \<Rightarrow> jsnum" where
  "ToNumber B JUndefined = NaN"
| "ToNumber B JNull = Fin 0"
| "ToNumber B (JBool b) = (if b then Fin 1 else Fin 0)"
| "ToNumber B (JNum n) = n"
| "ToNumber B (JStr s) = StringToNumber B s"
| "ToNumber B v = ObjectToNumber B v"

fun ToString :: "js_builtins \<Rightarrow> jsval \<Rightarrow> string" where
  "ToString B JUndefined = ''undefined''"
| "ToString B JNull = ''null''"
| "ToString B (JBool b) = (if b then ''true'' else ''false'')"
| "ToString B (JNum n) = NumberToString B n"
| "ToString B (JStr s) = s"
| "ToString B v = ObjectToString B v"

text \<open>The global \<^verbatim>\<open>isFinite\<close> converts its argument to a number first.\<close>

definition isFinite :: "js_builtins \<Rightarrow> jsval \<Rightarrow> bool" where
  "isFinite B v = is_finite (ToNumber B v)"

text \<open>
  \<^verbatim>\<open>parseFloat\<close> converts its argument to a string and reads the longest numeric prefix.
  The string of a number reads back as that number; \<^verbatim>\<open>"undefined"\<close>, \<^verbatim>\<open>"null"\<close>, \<^verbatim>\<open>"true"\<close>
  and \<^verbatim>\<open>"false"\<close> have no numeric prefix.
\<close>

fun parseFloat :: "js_builtins \<Rightarrow> jsval \<Rightarrow> jsnum" where
  "parseFloat B JUndefined = NaN"
| "parseFloat B JNull = NaN"
| "parseFloat B (JBool b) = NaN"
| "parseFloat B (JNum n) = n"
| "parseFloat B (JStr s) = parseFloatString B s"
| "parseFloat B v = parseFloatString B (ObjectToString B v)"

fun strict_eq :: "jsval \<Rightarrow> jsval \<Rightarrow> bool" where
  "strict_eq JUndefined JUndefined = True"
| "strict_eq JNull JNull = True"
| "strict_eq (JBool a) (JBool b) = (a = b)"
| "strict_eq (JNum a) (JNum b) = (a \<noteq> NaN \<and> a = b)"
| "strict_eq (JStr a) (JStr b) = (a = b)"
| "strict_eq a b = False"

subsection \<open>Property access\<close>

text \<open>
  An object holds its own properties as a list of key and value, one entry per key. Reading
  a property that is absent gives \<^verbatim>\<open>undefined\<close>; so does reading one of the record keys
  from a number, a string, a boolean or an array. Reading from \<^verbatim>\<open>null\<close> or \<^verbatim>\<open>undefined\<close>
  throws a TypeError, which the callers below check with \<open>nullish\<close> before they read.
\<close>

fun nullish :: "jsval \<Rightarrow> bool" where
  "nullish JUndefined = True"
| "nullish JNull = True"
| "nullish v = False"

fun get_prop :: "jsval \<Rightarrow> string \<Rightarrow> jsval" where
  "get_prop (JObj kvs) k = (case map_of kvs k of Some v \<Rightarrow> v | None \<Rightarrow> JUndefined)"
| "get_prop v k = JUndefined"

section \<open>Price data utilities\<close>

text \<open>
  \<^verbatim>\<open>const amountOf = r => +r.estimated_amount || +r.standard_charge_dollar
     || +r.standard_charge_gross || +r.standard_charge_min || +r.standard_charge_max || 0;\<close>
\<close>

definition amountOf :: "js_builtins \<Rightarrow> jsval \<Rightarrow> js_error + jsnum" where
  "amountOf B r =
     (if nullish r then Inl TypeError
      else Inr (num_or (num_or (num_or (num_or (num_or
             (ToNumber B (get_prop r ''estimated_amount''))
             (ToNumber B (get_prop r ''standard_charge_dollar'')))
             (ToNumber B (get_prop r ''standard_charge_gross'')))
             (ToNumber B (get_prop r ''standard_charge_min'')))
             (ToNumber B (get_prop r ''standard_charge_max'')))
             (Fin 0)))"

text \<open>
  The specification's reading of the effective amount: the fields in their precedence
  order, each read as a number, the first that is a number other than zero, and 0 when
  there is none.
\<close>

definition price_fields :: "string list" where
  "price_fields = [''estimated_amount'', ''standard_charge_dollar'', ''standard_charge_gross'',
                   ''standard_charge_min'', ''standard_charge_max'']"

definition nonzero_numeric :: "jsnum \<Rightarrow> bool" where
  "nonzero_numeric n = (n \<noteq> NaN \<and> n \<noteq> Fin 0)"

definition effectiveAmount_spec :: "js_builtins \<Rightarrow> jsval \<Rightarrow> jsnum" where
  "effectiveAmount_spec B r =
     (case find nonzero_numeric (map (\<lambda>f. ToNumber B (get_prop r f)) price_fields) of
        Some n \<Rightarrow> n
      | None \<Rightarrow> Fin 0)"

text \<open>
  \<^verbatim>\<open>formatPrice(amount, code)\<close> reads the global Medicare rate table \<^verbatim>\<open>cmsRate\<close>, here the
  argument \<open>cms\<close>. It returns the object \<^verbatim>\<open>{ price, ratio }\<close>, here a pair.
\<close>

definition formatPrice :: "js_builtins \<Rightarrow> (string \<rightharpoonup> jsnum) \<Rightarrow> jsval \<Rightarrow> jsval \<Rightarrow> string \<times> string" where
  "formatPrice B cms amount code =
     (if \<not> truthy amount \<or> strict_eq amount (JNum (Fin 0)) then (''N/A'', ''N/A'')
      else
        let price = ''$'' @ toLocaleString B (ToNumber B amount);
            ratio =
              (if truthy code then
                 let medicareRate =
                       (case cms (ToString B code) of
                          Some rate \<Rightarrow> num_or rate (Fin 0)
                        | None \<Rightarrow> Fin 0)
                 in if js_gt medicareRate (Fin 0)
                    then toFixed2 B (fdiv B (ToNumber B amount) medicareRate) @ ''x''
                    else ''N/A''
               else ''N/A'')
        in (price, ratio))"

definition ratio_of :: "js_builtins \<Rightarrow> (string \<rightharpoonup> jsnum) \<Rightarrow> jsval \<Rightarrow> jsval \<Rightarrow> string" where
  "ratio_of B cms amount code = snd (formatPrice B cms amount code)"

definition price_of :: "js_builtins \<Rightarrow> (string \<rightharpoonup> jsnum) \<Rightarrow> jsval \<Rightarrow> jsval \<Rightarrow> string" where
  "price_of B cms amount code = fst (formatPrice B cms amount code)"

text \<open>
  \<^verbatim>\<open>getCodeField\<close>: always the \<^verbatim>\<open>code\<close> field, for display and for the Medicare ratio. It
  is the first read of the record in \<^verbatim>\<open>generatePriceTable\<close> and in the code cell, so it is
  where a nullish record throws.
\<close>

definition getCodeField :: "jsval \<Rightarrow> js_error + jsval" where
  "getCodeField record =
     (if nullish record then Inl TypeError
      else Inr (js_or (get_prop record ''code'') (JStr [])))"

text \<open>\<^verbatim>\<open>getSearchCodeField\<close> reads the global \<^verbatim>\<open>currentConfigType\<close>, here its argument.\<close>

definition getSearchCodeField :: "string \<Rightarrow> string" where
  "getSearchCodeField currentConfigType =
     (if currentConfigType = ''service'' then ''code'' else ''rc_code'')"

text \<open>
  \<^verbatim>\<open>generatePriceTable\<close> collects one row per price field that is present (\<^verbatim>\<open>!= null\<close>) and
  renders the rows as an HTML table. The model returns the rows: the label, the price and
  the ratio, the ratio cell being there only when the Medicare-ratio box is checked. No row
  is the source's "No pricing data available".
\<close>

definition price_row :: "js_builtins \<Rightarrow> (string \<rightharpoonup> jsnum) \<Rightarrow> jsval \<Rightarrow> jsval \<Rightarrow> string \<Rightarrow> string \<Rightarrow>
    (string \<times> string \<times> string) list" where
  "price_row B cms record code field label =
     (if nullish (get_prop record field) then []
      else let formatted = formatPrice B cms (get_prop record field) code
           in [(label, fst formatted, snd formatted)])"

definition priceTypes :: "js_builtins \<Rightarrow> (string \<rightharpoonup> jsnum) \<Rightarrow> jsval \<Rightarrow> jsval \<Rightarrow>
    (string \<times> string \<times> string) list" where
  "priceTypes B cms record code =
     price_row B cms record code ''estimated_amount'' ''Estimate''
     @ price_row B cms record code ''standard_charge_min'' ''Minimum''
     @ price_row B cms record code ''standard_charge_max'' ''Maximum''"

definition generatePriceTable :: "js_builtins \<Rightarrow> (string \<rightharpoonup> jsnum) \<Rightarrow> bool \<Rightarrow> jsval \<Rightarrow>
    js_error + (string \<times> string \<times> string option) list" where
  "generatePriceTable B cms showRatio record =
     (case getCodeField record of
        Inl e \<Rightarrow> Inl e
      | Inr code \<Rightarrow>
          Inr (map (\<lambda>(t, p, r). (t, p, if showRatio then Some r else None))
                 (priceTypes B cms record code)))"

text \<open>The code cell of a price item in \<^verbatim>\<open>renderHospitals\<close>: \<^verbatim>\<open><code>${getCodeField(r)}</code>\<close>.\<close>

definition displayed_code :: "js_builtins \<Rightarrow> jsval \<Rightarrow> js_error + string" where
  "displayed_code B r =
     (case getCodeField r of Inl e \<Rightarrow> Inl e | Inr code \<Rightarrow> Inr (ToString B code))"

section \<open>Strings\<close>

text \<open>
  A string is the list of its code units; the model has the code units below 256. The
  white space \<^verbatim>\<open>trim\<close> removes is then tab, line feed, vertical tab, form feed, carriage
  return, space and no-break space.
\<close>

definition is_js_space :: "char \<Rightarrow> bool" where
  "is_js_space c = ((of_char c :: nat) \<in> {9, 10, 11, 12, 13, 32, 160})"

definition trim :: "string \<Rightarrow> string" where
  "trim s = rev (dropWhile is_js_space (rev (dropWhile is_js_space s)))"

text \<open>\<^verbatim>\<open>s.padStart(n, c)\<close> for a pad string of one character, and \<^verbatim>\<open>s.slice(-k)\<close>.\<close>

definition padStart :: "nat \<Rightarrow> char \<Rightarrow> string \<Rightarrow> string" where
  "padStart n c s = (if n \<le> length s then s else replicate (n - length s) c @ s)"

definition slice_last :: "nat \<Rightarrow> string \<Rightarrow> string" where
  "slice_last k s = drop (length s - k) s"

definition startsWith :: "string \<Rightarrow> string \<Rightarrow> bool" where
  "startsWith p s = (take (length p) s = p)"

text \<open>\<^verbatim>\<open>s.split(c)\<close>: the pieces between the occurrences of \<open>c\<close>; \<open>cur\<close> is the piece being read, reversed.\<close>

fun split_from :: "char \<Rightarrow> string \<Rightarrow> string \<Rightarrow> string list" where
  "split_from c cur [] = [rev cur]"
| "split_from c cur (x # xs) =
     (if x = c then rev cur # split_from c [] xs else split_from c (x # cur) xs)"

definition split_on :: "char \<Rightarrow> string \<Rightarrow> string list" where
  "split_on c s = split_from c [] s"

text \<open>\<^verbatim>\<open>const jsonUrl = (relPath) => relPath.startsWith('docs/') ? relPath.substring(5) : relPath;\<close>\<close>

definition jsonUrl :: "string \<Rightarrow> string" where
  "jsonUrl relPath = (if startsWith ''docs/'' relPath then drop 5 relPath else relPath)"

section \<open>JSON data loading and caching\<close>

text \<open>
  The session state: the global \<^verbatim>\<open>jsonCache\<close>, and what the run leaves behind outside it,
  namely the URLs handed to \<^verbatim>\<open>fetch\<close>, the paths whose text was parsed, and the warnings
  written to the console, each in order.
\<close>

datatype warning =
    JsonLineFailed string
  | JsonLoadingFailed jsval
  | JsonQueryFailed jsval
  | PayersFailed jsval

record session =
  jsonCache :: "string \<rightharpoonup> jsval list"
  fetchLog :: "string list"
  parseLog :: "string list"
  console :: "warning list"

definition init_session :: session where
  "init_session = \<lparr> jsonCache = Map.empty, fetchLog = [], parseLog = [], console = [] \<rparr>"

text \<open>
  The network answers a URL with a failure (the promise of \<^verbatim>\<open>fetch\<close> rejects) or with a
  response: its \<^verbatim>\<open>ok\<close> flag and its body, \<open>None\<close> when reading the body fails.
\<close>

datatype response = NetworkFailure | HttpResponse bool "string option"

type_synonym network = "string \<Rightarrow> response"

definition warn :: "warning \<Rightarrow> session \<Rightarrow> session" where
  "warn w st = st\<lparr>console := console st @ [w]\<rparr>"

definition parse_line :: "js_builtins \<Rightarrow> string \<Rightarrow> jsval" where
  "parse_line B line = (case JSON_parse B line of Some v \<Rightarrow> v | None \<Rightarrow> JNull)"

definition line_warnings :: "js_builtins \<Rightarrow> string list \<Rightarrow> warning list" where
  "line_warnings B lines =
     map (\<lambda>line. JsonLineFailed (take 100 line)) (filter (\<lambda>line. JSON_parse B line = None) lines)"

definition parse_text :: "js_builtins \<Rightarrow> string \<Rightarrow> jsval list" where
  "parse_text B text = filter (\<lambda>obj. obj \<noteq> JNull) (map (parse_line B) (split_on (CHR 0x0A) (trim text)))"

text \<open>
  \<^verbatim>\<open>loadHospitalJSON(jsonPath)\<close>, as one call runs when nothing else touches the cache
  between its fetch and the arrival of the response. A path that is truthy and not a string
  makes \<^verbatim>\<open>jsonUrl\<close> throw inside the \<^verbatim>\<open>try\<close>, before any fetch.
\<close>

definition loadHospitalJSON :: "js_builtins \<Rightarrow> network \<Rightarrow> jsval \<Rightarrow> session \<Rightarrow> jsval list \<times> session" where
  "loadHospitalJSON B net jsonPath st =
     (if \<not> truthy jsonPath then ([], st)
      else case jsonPath of
        JStr p \<Rightarrow>
          (case jsonCache st p of
             Some cached \<Rightarrow> (cached, st)
           | None \<Rightarrow>
               let st1 = st\<lparr>fetchLog := fetchLog st @ [jsonUrl p]\<rparr>;
                   failed = ([], warn (JsonLoadingFailed jsonPath) st1)
               in (case net (jsonUrl p) of
                     NetworkFailure \<Rightarrow> failed
                   | HttpResponse ok body \<Rightarrow>
                       if \<not> ok then failed
                       else (case body of
                               None \<Rightarrow> failed
                             | Some text \<Rightarrow>
                                 let jsonData = parse_text B text
                                 in (jsonData,
                                     st1\<lparr>jsonCache := (jsonCache st1)(p \<mapsto> jsonData),
                                         parseLog := parseLog st1 @ [p],
                                         console := console st1 @
                                           line_warnings B (split_on (CHR 0x0A) (trim text))\<rparr>))))
      | _ \<Rightarrow> ([], warn (JsonLoadingFailed jsonPath) st))"

text \<open>
  The two parts of a call of \<^verbatim>\<open>loadHospitalJSON\<close>. The first runs at once, up to
  \<^verbatim>\<open>await fetch(url)\<close>: the test of the path, the look into the cache, the fetch handed to
  the network. The second runs when the response has arrived: the test of its status, the
  parse, \<^verbatim>\<open>jsonCache.set\<close>. Between the two the page runs whatever else is due, other loads
  among it. \<open>loadHospitalJSON\<close> above is the call with nothing in between
  (lemma \<open>load_uninterrupted\<close>).
\<close>

datatype load_start = Ready "jsval list" | Pending string

definition startLoad :: "jsval \<Rightarrow> session \<Rightarrow> load_start \<times> session" where
  "startLoad jsonPath st =
     (if \<not> truthy jsonPath then (Ready [], st)
      else case jsonPath of
        JStr p \<Rightarrow>
          (case jsonCache st p of
             Some cached \<Rightarrow> (Ready cached, st)
           | None \<Rightarrow> (Pending p, st\<lparr>fetchLog := fetchLog st @ [jsonUrl p]\<rparr>))
      | _ \<Rightarrow> (Ready [], warn (JsonLoadingFailed jsonPath) st))"

definition finishLoad :: "js_builtins \<Rightarrow> response \<Rightarrow> string \<Rightarrow> session \<Rightarrow> jsval list \<times> session" where
  "finishLoad B resp p st =
     (let failed = ([], warn (JsonLoadingFailed (JStr p)) st)
      in case resp of
           NetworkFailure \<Rightarrow> failed
         | HttpResponse ok body \<Rightarrow>
             if \<not> ok then failed
             else (case body of
                     None \<Rightarrow> failed
                   | Some content \<Rightarrow>
                       let jsonData = parse_text B content
                       in (jsonData,
                           st\<lparr>jsonCache := (jsonCache st)(p \<mapsto> jsonData),
                               parseLog := parseLog st @ [p],
                               console := console st @
                                 line_warnings B (split_on (CHR 0x0A) (trim content))\<rparr>)))"

text \<open>
  What can happen to the cache in a session, in any order: a load is called, or the
  response to a load in flight arrives. The state is the session and the paths of the
  loads in flight.
\<close>

datatype event = Begin jsval | Arrive string response

fun step_event :: "js_builtins \<Rightarrow> event \<Rightarrow> session \<times> string list \<Rightarrow> session \<times> string list" where
  "step_event B (Begin jsonPath) (st, inflight) =
     (case startLoad jsonPath st of
        (Ready jsonData, st1) \<Rightarrow> (st1, inflight)
      | (Pending p, st1) \<Rightarrow> (st1, inflight @ [p]))"
| "step_event B (Arrive p resp) (st, inflight) =
     (if p \<in> set inflight then (snd (finishLoad B resp p st), remove1 p inflight)
      else (st, inflight))"

fun run_events :: "js_builtins \<Rightarrow> event list \<Rightarrow> session \<times> string list \<Rightarrow> session \<times> string list" where
  "run_events B [] s = s"
| "run_events B (e # es) s = run_events B es (step_event B e s)"

section \<open>Querying a hospital file\<close>

text \<open>
  \<^verbatim>\<open>Array.prototype.sort\<close> with a comparator is stable; for a comparator that orders the
  elements consistently its result is the one stable arrangement, which insertion from the
  right computes. The comparator's result is a number: positive puts the first argument
  after the second, and NaN counts as zero.
\<close>

fun js_insert :: "('a \<Rightarrow> 'a \<Rightarrow> jsnum) \<Rightarrow> 'a \<Rightarrow> 'a list \<Rightarrow> 'a list" where
  "js_insert cmp x [] = [x]"
| "js_insert cmp x (y # ys) =
     (if js_gt (cmp x y) (Fin 0) then y # js_insert cmp x ys else x # y # ys)"

definition js_sort :: "('a \<Rightarrow> 'a \<Rightarrow> jsnum) \<Rightarrow> 'a list \<Rightarrow> 'a list" where
  "js_sort cmp xs = foldr (js_insert cmp) xs []"

text \<open>The sort key of the query: \<^verbatim>\<open>parseFloat(a.estimated_amount) || 0\<close>.\<close>

definition estimated_key :: "js_builtins \<Rightarrow> jsval \<Rightarrow> jsnum" where
  "estimated_key B a = num_or (parseFloat B (get_prop a ''estimated_amount'')) (Fin 0)"

definition by_estimated_amount :: "js_builtins \<Rightarrow> jsval \<Rightarrow> jsval \<Rightarrow> jsnum" where
  "by_estimated_amount B a b = js_sub (estimated_key B a) (estimated_key B b)"

text \<open>Two records are in order when the sort key of the first is at most that of the second.\<close>

definition key_le :: "js_builtins \<Rightarrow> jsval \<Rightarrow> jsval \<Rightarrow> bool" where
  "key_le B a b = js_le (estimated_key B a) (estimated_key B b)"

text \<open>The two conjuncts of the filter callback of \<^verbatim>\<open>queryHospitalJSON\<close>.\<close>

definition matchesRegex :: "js_builtins \<Rightarrow> (string \<Rightarrow> bool) \<Rightarrow> string \<Rightarrow> jsval \<Rightarrow> bool" where
  "matchesRegex B regex_test codeField record =
     (let description = js_or (get_prop record ''description'') (JStr []);
          code = js_or (get_prop record codeField) (JStr [])
      in regex_test (ToString B description) \<or> regex_test (ToString B code))"

definition matchesPayer :: "jsval \<Rightarrow> jsval \<Rightarrow> jsval" where
  "matchesPayer selectedPayer record =
     js_or (JBool (\<not> truthy selectedPayer))
           (js_and (get_prop record ''payer_name'')
                   (JBool (strict_eq (get_prop record ''payer_name'') selectedPayer)))"

definition is_hit :: "js_builtins \<Rightarrow> (string \<Rightarrow> bool) \<Rightarrow> string \<Rightarrow> jsval \<Rightarrow> jsval \<Rightarrow> bool" where
  "is_hit B regex_test codeField selectedPayer record =
     truthy (js_and (JBool (matchesRegex B regex_test codeField record))
                    (matchesPayer selectedPayer record))"

text \<open>
  \<^verbatim>\<open>queryHospitalJSON(jsonPath, regexOrCode, selectedPayer)\<close>. The file is loaded first, then
  the expression is compiled; whatever is thrown inside the \<^verbatim>\<open>try\<close> (the SyntaxError of the
  constructor, the TypeError of reading a property of a nullish record) is caught, written
  to the console, and answered with the empty list.
\<close>

definition queryHospitalJSON ::
    "js_builtins \<Rightarrow> network \<Rightarrow> string \<Rightarrow> jsval \<Rightarrow> string \<Rightarrow> jsval \<Rightarrow> session \<Rightarrow> jsval list \<times> session" where
  "queryHospitalJSON B net currentConfigType jsonPath regexOrCode selectedPayer st =
     (if \<not> truthy jsonPath \<or> regexOrCode = [] then ([], st)
      else
        let loaded = loadHospitalJSON B net jsonPath st;
            jsonData = fst loaded;
            st1 = snd loaded
        in (case RegExp_i B regexOrCode of
              None \<Rightarrow> ([], warn (JsonQueryFailed jsonPath) st1)
            | Some regex_test \<Rightarrow>
                if list_ex nullish jsonData then ([], warn (JsonQueryFailed jsonPath) st1)
                else
                  let codeField = getSearchCodeField currentConfigType;
                      matches = take 50 (filter (is_hit B regex_test codeField selectedPayer) jsonData)
                  in (js_sort (by_estimated_amount B) matches, st1)))"

section \<open>Payer management\<close>

text \<open>
  \<^verbatim>\<open>getUniquePayers(hospitalList)\<close>. The \<^verbatim>\<open>Set\<close> keeps its elements in insertion order, here a
  list without repetition. Inside the \<^verbatim>\<open>forEach\<close> a payer name that is truthy and not a
  string has no \<^verbatim>\<open>trim\<close> method: the TypeError ends the walk over that hospital's records
  and is caught; the flag of \<open>collect_payers\<close> says so. The result is sorted by the default
  order of \<^verbatim>\<open>sort\<close>, the order of the code units.
\<close>

definition set_add :: "'a \<Rightarrow> 'a list \<Rightarrow> 'a list" where
  "set_add x xs = (if x \<in> set xs then xs else xs @ [x])"

fun collect_payers :: "jsval list \<Rightarrow> string list \<Rightarrow> string list \<times> bool" where
  "collect_payers [] payerSet = (payerSet, False)"
| "collect_payers (record # rest) payerSet =
     (if nullish record then (payerSet, True)
      else if \<not> truthy (get_prop record ''payer_name'') then collect_payers rest payerSet
      else case get_prop record ''payer_name'' of
             JStr s \<Rightarrow>
               if trim s \<noteq> [] then collect_payers rest (set_add (trim s) payerSet)
               else collect_payers rest payerSet
           | _ \<Rightarrow> (payerSet, True))"

record hospital =
  h_id :: jsval
  h_name :: string
  h_lat :: jsval
  h_lon :: jsval
  h_ll :: "jsval \<times> jsval"
  h_json_path :: jsval

text \<open>
  \<^verbatim>\<open>loadHospitalData\<close>, after the CSV is read: \<^verbatim>\<open>d.ll = [d.lon, d.lat]\<close> and
  \<^verbatim>\<open>d.json_path = d.json_path || ''\<close>.
\<close>

definition loadHospitalData :: "hospital list \<Rightarrow> hospital list" where
  "loadHospitalData rows =
     map (\<lambda>d. d\<lparr>h_ll := (h_lon d, h_lat d), h_json_path := js_or (h_json_path d) (JStr [])\<rparr>) rows"

text \<open>
  \<^verbatim>\<open>hospitalList.map(async ...)\<close> runs every callback up to its first \<^verbatim>\<open>await\<close> before any
  of them goes on: all the loads are started, in list order, against the cache as it is
  then. The callbacks whose load needed no fetch go on first; the others go on as their
  responses arrive, here in list order (the order is the network's; the payers and the
  cache entries do not depend on it).
\<close>

fun start_loads :: "hospital list \<Rightarrow> session \<Rightarrow> (jsval \<times> load_start) list \<times> session" where
  "start_loads [] st = ([], st)"
| "start_loads (hospital # rest) st =
     (if \<not> truthy (h_json_path hospital) then start_loads rest st
      else
        let started = startLoad (h_json_path hospital) st;
            others = start_loads rest (snd started)
        in ((h_json_path hospital, fst started) # fst others, snd others))"

fun is_ready :: "load_start \<Rightarrow> bool" where
  "is_ready (Ready jsonData) = True"
| "is_ready (Pending p) = False"

definition resume_payers :: "js_builtins \<Rightarrow> network \<Rightarrow> string list \<times> session \<Rightarrow> jsval \<times> load_start \<Rightarrow>
    string list \<times> session" where
  "resume_payers B net acc started =
     (let loaded =
            (case snd started of
               Ready jsonData \<Rightarrow> (jsonData, snd acc)
             | Pending p \<Rightarrow> finishLoad B (net (jsonUrl p)) p (snd acc));
          collected = collect_payers (fst loaded) (fst acc)
      in (fst collected,
          if snd collected then warn (PayersFailed (fst started)) (snd loaded)
          else snd loaded))"

definition getUniquePayers :: "js_builtins \<Rightarrow> network \<Rightarrow> hospital list \<Rightarrow> session \<Rightarrow> string list \<times> session" where
  "getUniquePayers B net hospitalList st =
     (let started = start_loads hospitalList st;
          ready = filter (\<lambda>s. is_ready (snd s)) (fst started);
          pending = filter (\<lambda>s. \<not> is_ready (snd s)) (fst started);
          done = foldl (resume_payers B net)
                   (foldl (resume_payers B net) ([], snd started) ready) pending
      in (sort (fst done), snd done))"

section \<open>Main search\<close>

definition EARTH_MI :: real where
  "EARTH_MI = 39587613 / 10000"

definition ENABLE_PRICES :: bool where
  "ENABLE_PRICES = True"

text \<open>\<^verbatim>\<open>const gcMiles = (aLonLat, bLonLat) => d3.geoDistance(aLonLat, bLonLat) * EARTH_MI;\<close>\<close>

definition gcMiles :: "js_builtins \<Rightarrow> jsval \<times> jsval \<Rightarrow> jsval \<times> jsval \<Rightarrow> jsnum" where
  "gcMiles B aLonLat bLonLat = fmul B (geoDistance B aLonLat bLonLat) (Fin EARTH_MI)"

text \<open>
  The globals of the page: the configuration tables (a pattern table maps a name to the
  source of its compiled expression), the ZIP table (ZIP to \<^verbatim>\<open>[lat, lon]\<close>), the hospital
  index and the Medicare rates. Then the form controls that \<^verbatim>\<open>go\<close> reads.
\<close>

record app =
  currentConfigType :: string
  services :: "string \<rightharpoonup> string"
  revenueCodes :: "string \<rightharpoonup> string"
  ZIP :: "string \<rightharpoonup> jsval \<times> jsval"
  hospitals :: "hospital list"
  cmsRate :: "string \<rightharpoonup> jsnum"

record form =
  zip_value :: string
  radius_value :: string
  service_value :: string
  q_value :: string
  payer_value :: string
  unit_checked :: bool

text \<open>The first lines of \<^verbatim>\<open>go\<close>: the ZIP that is looked up, and the search pattern.\<close>

definition search_zip :: "form \<Rightarrow> string" where
  "search_zip f = (let rawZip = trim (zip_value f) in slice_last 5 (padStart 5 (CHR ''0'') rawZip))"

definition searchPattern :: "app \<Rightarrow> form \<Rightarrow> string" where
  "searchPattern a f =
     (let svcName = service_value f;
          q = trim (q_value f);
          configMap = (if currentConfigType a = ''service'' then services a else revenueCodes a)
      in case (if svcName \<noteq> [] \<and> svcName \<noteq> ''custom'' then configMap svcName else None) of
           Some svcRegex_source \<Rightarrow> svcRegex_source
         | None \<Rightarrow> if svcName = ''custom'' \<and> q \<noteq> [] then q else [])"

text \<open>The radius filter of \<^verbatim>\<open>go\<close>: the value of \<^verbatim>\<open>nearby\<close> in its two modes.\<close>

definition nearby_hospitals :: "js_builtins \<Rightarrow> jsval \<times> jsval \<Rightarrow> jsnum \<Rightarrow> hospital list \<Rightarrow> hospital list" where
  "nearby_hospitals B center miles hs =
     (if js_ge miles (Fin 500)
      then filter (\<lambda>h. isFinite B (h_lon h) \<and> isFinite B (h_lat h)) hs
      else filter (\<lambda>h. isFinite B (h_lon h) \<and> isFinite B (h_lat h)
                         \<and> js_le (gcMiles B center (h_ll h)) miles) hs)"

text \<open>
  The worker loop of \<^verbatim>\<open>go\<close>. Four workers share the cursor \<^verbatim>\<open>i\<close>; each takes the next
  hospital, queries it and stores the hits under the hospital's id. The model takes the
  hospitals in index order, one query after the other, and returns the pairs of id and
  hits in that order. The hits of a hospital are those of its query whatever the workers
  do meanwhile: the query reads the records its own load returns.
\<close>

fun workers :: "js_builtins \<Rightarrow> network \<Rightarrow> string \<Rightarrow> string \<Rightarrow> jsval \<Rightarrow> hospital list \<Rightarrow> session \<Rightarrow>
    (jsval \<times> jsval list) list \<times> session" where
  "workers B net cfg pattern selectedPayer [] st = ([], st)"
| "workers B net cfg pattern selectedPayer (h # rest) st =
     (let queried =
            (if ENABLE_PRICES \<and> pattern \<noteq> [] \<and> truthy (h_json_path h)
             then queryHospitalJSON B net cfg (h_json_path h) pattern selectedPayer st
             else ([], st));
          others = workers B net cfg pattern selectedPayer rest (snd queried)
      in ((h_id h, fst queried) # fst others, snd others))"

datatype outcome =
    ZipNotFound string
  | NoHospitalsIndex
  | Done "hospital list" "(jsval \<times> jsval list) list" "string list"

definition go :: "js_builtins \<Rightarrow> network \<Rightarrow> app \<Rightarrow> form \<Rightarrow> session \<Rightarrow> outcome \<times> session" where
  "go B net a f st =
     (let zip = search_zip f;
          miles = StringToNumber B (radius_value f);
          selectedPayer = js_or (JStr (payer_value f)) JNull;
          pattern = searchPattern a f
      in case ZIP a zip of
           None \<Rightarrow> (ZipNotFound zip, st)
         | Some (lat, lon) \<Rightarrow>
             if hospitals a = [] then (NoHospitalsIndex, st)
             else
               let nearby = nearby_hospitals B (lon, lat) miles (hospitals a);
                   payers = getUniquePayers B net nearby st;
                   queried = workers B net (currentConfigType a) pattern selectedPayer nearby (snd payers)
               in (Done nearby (fst queried) (fst payers), snd queried))"

text \<open>
  What \<^verbatim>\<open>renderHospitals\<close> shows for one hit: the code cell and the price table. The
  rate table and the Medicare-ratio box come from the globals and the form.
\<close>

definition price_item :: "js_builtins \<Rightarrow> app \<Rightarrow> form \<Rightarrow> jsval \<Rightarrow>
    (js_error + string) \<times> (js_error + (string \<times> string \<times> string option) list)" where
  "price_item B a f r = (displayed_code B r, generatePriceTable B (cmsRate a) (unit_checked f) r)"

section \<open>Sample data\<close>

text \<open>
  A concrete engine for the examples. It answers as the JavaScript engine and d3 do on the
  arguments the examples use: patterns made of letters and digits tested on text of the
  same case, the unterminated group \<^verbatim>\<open>(\<close>, the lines of the sample files, and a few numbers.
\<close>

fun contains :: "string \<Rightarrow> string \<Rightarrow> bool" where
  "contains p [] = (p = [])"
| "contains p (x # xs) = (take (length p) (x # xs) = p \<or> contains p xs)"

definition rec_mri :: jsval where
  "rec_mri = JObj [(''description'', JStr ''MRI BRAIN''), (''code'', JStr ''70551''),
                   (''payer_name'', JStr '' Aetna ''), (''standard_charge_min'', JNum (Fin 100))]"

definition rec_mri_est :: jsval where
  "rec_mri_est = JObj [(''description'', JStr ''MRI SPINE''), (''code'', JStr ''72148''),
                       (''payer_name'', JStr ''Cigna''), (''estimated_amount'', JNum (Fin 50))]"

definition rec_rc :: jsval where
  "rec_rc = JObj [(''description'', JStr ''IMAGING''), (''code'', JStr ''99213''),
                  (''rc_code'', JStr ''70551''), (''estimated_amount'', JNum (Fin 200))]"

definition line_mri :: string where
  \<open>line_mri = ''{"description":"MRI BRAIN","code":"70551","payer_name":" Aetna ","standard_charge_min":100}''\<close>

definition line_mri_est :: string where
  \<open>line_mri_est = ''{"description":"MRI SPINE","code":"72148","payer_name":"Cigna","estimated_amount":50}''\<close>

definition line_rc :: string where
  \<open>line_rc = ''{"description":"IMAGING","code":"99213","rc_code":"70551","estimated_amount":200}''\<close>

definition sample_builtins :: js_builtins where
  "sample_builtins = \<lparr>
     StringToNumber = (\<lambda>s. case map_of [([], Fin 0), (''25'', Fin 25), (''100'', Fin 100),
                                         (''500'', Fin 500)] s of Some n \<Rightarrow> n | None \<Rightarrow> NaN),
     ObjectToNumber = (\<lambda>v. NaN),
     NumberToString = (\<lambda>n. case map_of [(Fin 0, ''0''), (Fin 50, ''50''), (Fin 100, ''100''),
                                         (Fin 200, ''200'')] n of Some s \<Rightarrow> s | None \<Rightarrow> ''NaN''),
     ObjectToString = (\<lambda>v. ''[object Object]''),
     parseFloatString = (\<lambda>s. NaN),
     RegExp_i = (\<lambda>p. if p = ''('' then None else Some (contains p)),
     JSON_parse = map_of [(line_mri, rec_mri), (line_mri_est, rec_mri_est), (line_rc, rec_rc)],
     toLocaleString = (\<lambda>n. case map_of [(Fin 50, ''50''), (Fin 100, ''100''),
                                         (Fin 200, ''200'')] n of Some s \<Rightarrow> s | None \<Rightarrow> ''NaN''),
     toFixed2 = (\<lambda>n. case map_of [(Fin 2, ''2.00''), (Fin (1 / 2), ''0.50'')] n of
                        Some s \<Rightarrow> s | None \<Rightarrow> ''NaN''),
     fdiv = (\<lambda>a b. case (a, b) of (Fin x, Fin y) \<Rightarrow> if y = 0 then NaN else Fin (x / y) | _ \<Rightarrow> NaN),
     fmul = (\<lambda>a b. case (a, b) of (Fin x, Fin y) \<Rightarrow> Fin (x * y) | _ \<Rightarrow> NaN),
     geoDistance = (\<lambda>a b. if a = b then Fin 0 else Fin (17453292519943295 / 10 ^ 18)) \<rparr>"

text \<open>
  One hospital file of two lines, served under the URL of its path; a hospital at the ZIP's
  own coordinates, one a degree of longitude away with no file, and one whose coordinates
  are not numbers.
\<close>

definition duke_file :: string where
  "duke_file = line_mri @ [CHR 0x0A] @ line_mri_est @ [CHR 0x0A]"

definition sample_net :: network where
  "sample_net url =
     (if url = ''data/duke.json'' then HttpResponse True (Some duke_file) else NetworkFailure)"

definition duke :: hospital where
  "duke = \<lparr> h_id = JNum (Fin 1), h_name = ''Duke University Hospital'',
            h_lat = JNum (Fin 0), h_lon = JNum (Fin 0),
            h_ll = (JNum (Fin 0), JNum (Fin 0)), h_json_path = JStr ''docs/data/duke.json'' \<rparr>"

definition far_hospital :: hospital where
  "far_hospital = \<lparr> h_id = JNum (Fin 2), h_name = ''Far Hospital'',
            h_lat = JNum (Fin 0), h_lon = JNum (Fin 1),
            h_ll = (JNum (Fin 1), JNum (Fin 0)), h_json_path = JStr [] \<rparr>"

definition lost_hospital :: hospital where
  "lost_hospital = \<lparr> h_id = JNum (Fin 3), h_name = ''Lost Hospital'',
            h_lat = JStr ''n/a'', h_lon = JStr ''n/a'',
            h_ll = (JStr ''n/a'', JStr ''n/a''), h_json_path = JStr [] \<rparr>"

definition sample_app :: app where
  "sample_app = \<lparr> currentConfigType = ''service'',
            services = [''MRI'' \<mapsto> ''MRI''],
            revenueCodes = Map.empty,
            ZIP = [''27710'' \<mapsto> (JNum (Fin 0), JNum (Fin 0))],
            hospitals = loadHospitalData [duke, far_hospital, lost_hospital],
            cmsRate = [''70551'' \<mapsto> Fin 50] \<rparr>"

definition sample_form :: form where
  "sample_form = \<lparr> zip_value = '' 27710 '', radius_value = ''25'', service_value = ''custom'',
            q_value = ''MRI'', payer_value = [], unit_checked = True \<rparr>"

text \<open>
  A second hospital that publishes under the file of the first, a hospital whose row has
  no coordinates (\<^verbatim>\<open>d3.autoType\<close> reads an empty cell as \<^verbatim>\<open>null\<close>), and the search at the
  radius of 500.
\<close>

definition duke_north :: hospital where
  "duke_north = \<lparr> h_id = JNum (Fin 4), h_name = ''Duke North'',
            h_lat = JNum (Fin 0), h_lon = JNum (Fin 0),
            h_ll = (JNum (Fin 0), JNum (Fin 0)), h_json_path = JStr ''docs/data/duke.json'' \<rparr>"

definition shared_app :: app where
  "shared_app = sample_app\<lparr>hospitals := loadHospitalData [duke, duke_north]\<rparr>"

definition blank_hospital :: hospital where
  "blank_hospital = \<lparr> h_id = JNum (Fin 5), h_name = ''Unplaced Hospital'',
            h_lat = JNull, h_lon = JNull,
            h_ll = (JNull, JNull), h_json_path = JStr [] \<rparr>"

definition blank_app :: app where
  "blank_app = sample_app\<lparr>hospitals := loadHospitalData [duke, blank_hospital]\<rparr>"

definition all_form :: form where
  "all_form = sample_form\<lparr>radius_value := ''500''\<rparr>"

text \<open>The response of the sample network for the sample file.\<close>

definition duke_response :: response where
  "duke_response = HttpResponse True (Some duke_file)"

text \<open>The sample search with a custom pattern that does not compile.\<close>

definition bad_form :: form where
  "bad_form = sample_form\<lparr>q_value := ''(''\<rparr>"

text \<open>The sample search with the payer the dropdown offers for the first record.\<close>

definition aetna_form :: form where
  "aetna_form = sample_form\<lparr>payer_value := ''Aetna''\<rparr>"

text \<open>The third sample record with another revenue code.\<close>

definition rec_rc_other :: jsval where
  "rec_rc_other = JObj [(''description'', JStr ''IMAGING''), (''code'', JStr ''99213''),
                        (''rc_code'', JStr ''0450''), (''estimated_amount'', JNum (Fin 200))]"

text \<open>Two records for the effective amount.\<close>

definition rec_min_first :: jsval where
  "rec_min_first = JObj [(''estimated_amount'', JNum (Fin 0)), (''standard_charge_gross'', JNull),
                         (''standard_charge_min'', JNum (Fin 120)),
                         (''standard_charge_max'', JNum (Fin 300))]"

definition rec_no_price :: jsval where
  "rec_no_price = JObj [(''description'', JStr ''OFFICE VISIT''), (''estimated_amount'', JNull),
                        (''standard_charge_min'', JNum (Fin 0)),
                        (''standard_charge_max'', JStr ''n/a'')]"

section \<open>Properties\<close>

lemma truthy_num_iff: "truthy_num n \<longleftrightarrow> nonzero_numeric n"
  by (cases n) (simp_all add: nonzero_numeric_def)

subsection \<open>The sort of the hits\<close>

lemma js_gt_sub: "a \<noteq> NaN \<Longrightarrow> b \<noteq> NaN \<Longrightarrow> js_gt (js_sub a b) (Fin 0) \<longleftrightarrow> js_lt b a"
  by (cases a; cases b) (simp_all add: js_gt_def)

lemma js_le_total: "a \<noteq> NaN \<Longrightarrow> b \<noteq> NaN \<Longrightarrow> \<not> js_lt b a \<Longrightarrow> js_le a b"
  by (cases a; cases b) auto

lemma js_lt_imp_le: "js_lt a b \<Longrightarrow> js_le a b"
  by (cases a; cases b) simp_all

lemma js_le_trans: "js_le a b \<Longrightarrow> js_le b c \<Longrightarrow> js_le a c"
  by (cases a; cases b; cases c) auto

lemma mset_js_insert: "mset (js_insert cmp x xs) = add_mset x (mset xs)"
  by (induction xs) simp_all

lemma mset_js_sort: "mset (js_sort cmp xs) = mset xs"
  by (induction xs) (simp_all add: js_sort_def mset_js_insert)

lemma set_js_insert: "set (js_insert cmp x xs) = insert x (set xs)"
  by (induction xs) auto

lemma length_js_sort: "length (js_sort cmp xs) = length xs"
  using mset_js_sort [of cmp xs] by (metis size_mset)

lemma estimated_key_not_NaN: "estimated_key B a \<noteq> NaN"
  by (cases "parseFloat B (get_prop a ''estimated_amount'')")
     (simp_all add: estimated_key_def num_or_def)

lemma sorted_js_insert:
  "sorted_wrt (key_le B) xs \<Longrightarrow> sorted_wrt (key_le B) (js_insert (by_estimated_amount B) x xs)"
proof (induction xs)
  case Nil
  then show ?case by simp
next
  case (Cons y ys)
  show ?case
  proof (cases "js_lt (estimated_key B y) (estimated_key B x)")
    case True
    then have "key_le B y x" by (simp add: key_le_def js_lt_imp_le)
    with Cons True show ?thesis
      by (auto simp: by_estimated_amount_def js_gt_sub estimated_key_not_NaN set_js_insert)
  next
    case False
    then have xy: "key_le B x y"
      by (simp add: key_le_def js_le_total estimated_key_not_NaN)
    have "key_le B x z" if "z \<in> set ys" for z
      using Cons.prems that xy unfolding key_le_def by (auto intro: js_le_trans)
    with Cons.prems False xy show ?thesis
      by (auto simp: by_estimated_amount_def js_gt_sub estimated_key_not_NaN)
  qed
qed

lemma sorted_js_sort: "sorted_wrt (key_le B) (js_sort (by_estimated_amount B) xs)"
  by (induction xs) (simp_all add: js_sort_def sorted_js_insert)

lemma query_hits_capped_sorted:
  "length (fst (queryHospitalJSON B net cfg path pattern payer st)) \<le> 50
   \<and> sorted_wrt (key_le B) (fst (queryHospitalJSON B net cfg path pattern payer st))"
  by (simp add: queryHospitalJSON_def Let_def length_js_sort sorted_js_sort split: option.split)

lemma workers_hits_capped_sorted:
  "(i, hits) \<in> set (fst (workers B net cfg pattern payer hs st)) \<Longrightarrow>
     length hits \<le> 50 \<and> sorted_wrt (key_le B) hits"
proof (induction hs arbitrary: st)
  case Nil
  then show ?case by simp
next
  case (Cons h rest)
  then show ?case
    using query_hits_capped_sorted [of B net cfg "h_json_path h" pattern payer st]
    by (auto simp: Let_def split: if_splits)
qed

lemma sample_search:
  "fst (go sample_builtins sample_net sample_app sample_form init_session) =
     Done [duke] [(JNum (Fin 1), [rec_mri, rec_mri_est])] [''Aetna'', ''Cigna'']"
  by code_simp

text \<open>
  C2, as stated, fails: the hit list is not ordered by the effective amount. In the sample
  search the first hit has no estimated amount and a minimum of 100 (effective amount 100),
  the second an estimated amount of 50 (effective amount 50); the query sorts on the
  estimated amount alone, where the first counts as 0, and returns them in this order.
\<close>

theorem hits_not_sorted_by_effective_amount:
  "fst (go sample_builtins sample_net sample_app sample_form init_session) =
     Done [duke] [(JNum (Fin 1), [rec_mri, rec_mri_est])] [''Aetna'', ''Cigna'']
   \<and> amountOf sample_builtins rec_mri = Inr (Fin 100)
   \<and> amountOf sample_builtins rec_mri_est = Inr (Fin 50)
   \<and> \<not> js_le (Fin 100) (Fin 50)"
proof -
  have "amountOf sample_builtins rec_mri = Inr (Fin 100)" by code_simp
  moreover have "amountOf sample_builtins rec_mri_est = Inr (Fin 50)" by code_simp
  ultimately show ?thesis using sample_search by simp
qed

text \<open>
  C2, amended. For every hospital the workers process, the hit list has at most 50 records
  and is non-decreasing in the sort key of the query, the estimated amount read with
  \<^verbatim>\<open>parseFloat\<close> and counted as 0 when it is missing, zero or not a number. When the pattern
  compiles and no record is nullish, the hit list holds exactly the first 50 matches of the
  file, the sort being applied to that truncated list.
\<close>

theorem hits_capped_sorted_by_estimate:
  "(\<forall>(i, hits) \<in> set (fst (workers B net cfg pattern payer hs st)).
       length hits \<le> 50 \<and> sorted_wrt (key_le B) hits)
   \<and> (truthy path \<and> pattern \<noteq> [] \<and> RegExp_i B pattern = Some t
        \<and> \<not> list_ex nullish (fst (loadHospitalJSON B net path st)) \<longrightarrow>
        fst (queryHospitalJSON B net cfg path pattern payer st) =
          js_sort (by_estimated_amount B)
            (take 50 (filter (is_hit B t (getSearchCodeField cfg) payer)
                             (fst (loadHospitalJSON B net path st))))
        \<and> mset (fst (queryHospitalJSON B net cfg path pattern payer st)) =
          mset (take 50 (filter (is_hit B t (getSearchCodeField cfg) payer)
                                (fst (loadHospitalJSON B net path st)))))"
proof (intro conjI)
  show "\<forall>(i, hits) \<in> set (fst (workers B net cfg pattern payer hs st)).
       length hits \<le> 50 \<and> sorted_wrt (key_le B) hits"
    using workers_hits_capped_sorted by blast
  show "truthy path \<and> pattern \<noteq> [] \<and> RegExp_i B pattern = Some t
        \<and> \<not> list_ex nullish (fst (loadHospitalJSON B net path st)) \<longrightarrow>
        fst (queryHospitalJSON B net cfg path pattern payer st) =
          js_sort (by_estimated_amount B)
            (take 50 (filter (is_hit B t (getSearchCodeField cfg) payer)
                             (fst (loadHospitalJSON B net path st))))
        \<and> mset (fst (queryHospitalJSON B net cfg path pattern payer st)) =
          mset (take 50 (filter (is_hit B t (getSearchCodeField cfg) payer)
                                (fst (loadHospitalJSON B net path st))))"
    by (simp add: queryHospitalJSON_def Let_def mset_js_sort)
qed

lemma sample_workers:
  "fst (workers sample_builtins sample_net ''service'' ''MRI'' JNull [duke] init_session) =
     [(JNum (Fin 1), [rec_mri, rec_mri_est])]"
  by code_simp

lemma sample_load:
  "fst (loadHospitalJSON sample_builtins sample_net (JStr ''docs/data/duke.json'') init_session) =
     [rec_mri, rec_mri_est]"
  by code_simp

text \<open>
  C2, amended, at the sample file: the two hits of the sample hospital, and the query that
  returns them.
\<close>

theorem hits_capped_sorted_by_estimate_witness:
  "(JNum (Fin 1), [rec_mri, rec_mri_est]) \<in>
      set (fst (workers sample_builtins sample_net ''service'' ''MRI'' JNull [duke] init_session))
   \<and> length [rec_mri, rec_mri_est] \<le> 50
   \<and> sorted_wrt (key_le sample_builtins) [rec_mri, rec_mri_est]
   \<and> truthy (JStr ''docs/data/duke.json'') \<and> ''MRI'' \<noteq> []
   \<and> RegExp_i sample_builtins ''MRI'' = Some (contains ''MRI'')
   \<and> \<not> list_ex nullish
          (fst (loadHospitalJSON sample_builtins sample_net (JStr ''docs/data/duke.json'') init_session))
   \<and> mset (fst (queryHospitalJSON sample_builtins sample_net ''service''
              (JStr ''docs/data/duke.json'') ''MRI'' JNull init_session)) =
       mset (take 50 (filter (is_hit sample_builtins (contains ''MRI'')
                               (getSearchCodeField ''service'') JNull)
          (fst (loadHospitalJSON sample_builtins sample_net (JStr ''docs/data/duke.json'') init_session))))"
proof -
  have w: "(JNum (Fin 1), [rec_mri, rec_mri_est]) \<in>
      set (fst (workers sample_builtins sample_net ''service'' ''MRI'' JNull [duke] init_session))"
    unfolding sample_workers by simp
  have t: "truthy (JStr ''docs/data/duke.json'') \<and> ''MRI'' \<noteq> []
     \<and> RegExp_i sample_builtins ''MRI'' = Some (contains ''MRI'')
     \<and> \<not> list_ex nullish
          (fst (loadHospitalJSON sample_builtins sample_net (JStr ''docs/data/duke.json'') init_session))"
    unfolding sample_load by (simp add: sample_builtins_def rec_mri_def rec_mri_est_def)
  note inst = hits_capped_sorted_by_estimate [of sample_builtins sample_net "''service''" "''MRI''"
        JNull "[duke]" init_session "JStr ''docs/data/duke.json''" "contains ''MRI''"]
  from inst w have s: "length [rec_mri, rec_mri_est] \<le> 50
      \<and> sorted_wrt (key_le sample_builtins) [rec_mri, rec_mri_est]"
    by blast
  from inst t have m: "mset (fst (queryHospitalJSON sample_builtins sample_net ''service''
              (JStr ''docs/data/duke.json'') ''MRI'' JNull init_session)) =
       mset (take 50 (filter (is_hit sample_builtins (contains ''MRI'')
                               (getSearchCodeField ''service'') JNull)
          (fst (loadHospitalJSON sample_builtins sample_net (JStr ''docs/data/duke.json'') init_session))))"
    by blast
  from w s t m show ?thesis by blast
qed

subsection \<open>A pattern that does not compile\<close>

lemma query_invalid_pattern:
  "RegExp_i B pattern = None \<Longrightarrow>
     fst (queryHospitalJSON B net cfg path pattern payer st) = []"
  by (simp add: queryHospitalJSON_def Let_def)

lemma workers_invalid_pattern:
  "RegExp_i B pattern = None \<Longrightarrow>
     fst (workers B net cfg pattern payer hs st) = map (\<lambda>h. (h_id h, [])) hs"
  by (induction hs arbitrary: st) (simp_all add: Let_def query_invalid_pattern)

lemma bad_search:
  "(case go sample_builtins sample_net sample_app bad_form init_session of
      (out, st) \<Rightarrow>
        out = Done [duke] [(JNum (Fin 1), [])] [''Aetna'', ''Cigna'']
        \<and> fetchLog st = [''data/duke.json'']
        \<and> console st = [JsonQueryFailed (JStr ''docs/data/duke.json'')])"
  by code_simp

lemma bad_pattern: "RegExp_i sample_builtins (searchPattern sample_app bad_form) = None"
  by code_simp

lemma bad_zip: "ZIP sample_app (search_zip bad_form) = Some (JNum (Fin 0), JNum (Fin 0))"
  by code_simp

lemma sample_hospitals: "hospitals sample_app \<noteq> []"
  by code_simp

lemma sample_nearby:
  "nearby_hospitals sample_builtins (JNum (Fin 0), JNum (Fin 0))
     (StringToNumber sample_builtins (radius_value bad_form)) (hospitals sample_app) = [duke]"
  by code_simp

text \<open>
  C1, as stated, fails: a pattern that does not compile is not surfaced before the
  fetching, and it is reported as zero hits. With the custom pattern \<^verbatim>\<open>(\<close> the sample search
  ends as any other search does, with the hospital in radius and an empty hit list for it;
  the hospital's file has been fetched, and the only trace of the pattern is the console
  warning of the query.
\<close>

theorem invalid_pattern_masked_as_zero_hits:
  "RegExp_i sample_builtins (searchPattern sample_app bad_form) = None
   \<and> fst (go sample_builtins sample_net sample_app bad_form init_session) =
       Done [duke] [(JNum (Fin 1), [])] [''Aetna'', ''Cigna'']
   \<and> fetchLog (snd (go sample_builtins sample_net sample_app bad_form init_session)) =
       [''data/duke.json'']
   \<and> console (snd (go sample_builtins sample_net sample_app bad_form init_session)) =
       [JsonQueryFailed (JStr ''docs/data/duke.json'')]"
  using bad_search bad_pattern by (simp add: case_prod_beta)

text \<open>
  C1, amended. For every search whose pattern does not compile, nothing is checked before
  the fetching: the search runs the payer aggregation and the queries as for any pattern,
  each query loads the hospital's file first, then catches the failure of the compile,
  writes a console warning and answers with no hits; the search ends normally, with an
  empty hit list for every hospital in radius.
\<close>

theorem invalid_pattern_gives_zero_hits:
  assumes "RegExp_i B (searchPattern a f) = None"
    and "ZIP a (search_zip f) = Some (lat, lon)"
    and "hospitals a \<noteq> []"
  shows "fst (go B net a f st) =
           Done (nearby_hospitals B (lon, lat) (StringToNumber B (radius_value f)) (hospitals a))
                (map (\<lambda>h. (h_id h, []))
                   (nearby_hospitals B (lon, lat) (StringToNumber B (radius_value f)) (hospitals a)))
                (fst (getUniquePayers B net
                   (nearby_hospitals B (lon, lat) (StringToNumber B (radius_value f)) (hospitals a)) st))
         \<and> (truthy path \<and> searchPattern a f \<noteq> [] \<longrightarrow>
              queryHospitalJSON B net cfg path (searchPattern a f) payer st' =
                ([], warn (JsonQueryFailed path) (snd (loadHospitalJSON B net path st'))))"
  using assms by (simp add: go_def Let_def workers_invalid_pattern queryHospitalJSON_def)

text \<open>C1, amended, at the sample search with the pattern \<^verbatim>\<open>(\<close>.\<close>

theorem invalid_pattern_gives_zero_hits_witness:
  "RegExp_i sample_builtins (searchPattern sample_app bad_form) = None
   \<and> ZIP sample_app (search_zip bad_form) = Some (JNum (Fin 0), JNum (Fin 0))
   \<and> hospitals sample_app \<noteq> []
   \<and> truthy (JStr ''docs/data/duke.json'') \<and> searchPattern sample_app bad_form \<noteq> []
   \<and> fst (go sample_builtins sample_net sample_app bad_form init_session) =
       Done [duke] (map (\<lambda>h. (h_id h, [])) [duke])
            (fst (getUniquePayers sample_builtins sample_net [duke] init_session))
   \<and> queryHospitalJSON sample_builtins sample_net ''service'' (JStr ''docs/data/duke.json'')
         (searchPattern sample_app bad_form) JNull init_session =
       ([], warn (JsonQueryFailed (JStr ''docs/data/duke.json''))
              (snd (loadHospitalJSON sample_builtins sample_net (JStr ''docs/data/duke.json'')
                      init_session)))"
proof -
  have t: "truthy (JStr ''docs/data/duke.json'') \<and> searchPattern sample_app bad_form \<noteq> []"
    by code_simp
  note inst = invalid_pattern_gives_zero_hits [where path = "JStr ''docs/data/duke.json''"
      and net = sample_net and st = init_session and cfg = "''service''" and payer = JNull
      and st' = init_session, OF bad_pattern bad_zip sample_hospitals]
  from inst t bad_pattern bad_zip sample_hospitals show ?thesis
    unfolding sample_nearby by blast
qed

subsection \<open>The radius filter\<close>

lemma js_lt_not_ge: "js_lt a b \<Longrightarrow> \<not> js_ge a b"
  by (cases a; cases b) (auto simp: js_ge_def)

lemma h_ll_loadHospitalData:
  "h \<in> set (loadHospitalData rows) \<Longrightarrow> h_ll h = (h_lon h, h_lat h)"
  by (auto simp: loadHospitalData_def)

lemma nearby_hospitals_modes:
  "(js_lt miles (Fin 500) \<longrightarrow>
      nearby_hospitals B center miles (loadHospitalData rows) =
      filter (\<lambda>h. isFinite B (h_lon h) \<and> isFinite B (h_lat h)
                   \<and> js_le (gcMiles B center (h_lon h, h_lat h)) miles) (loadHospitalData rows))
   \<and> (js_ge miles (Fin 500) \<longrightarrow>
      nearby_hospitals B center miles (loadHospitalData rows) =
      filter (\<lambda>h. isFinite B (h_lon h) \<and> isFinite B (h_lat h)) (loadHospitalData rows))"
proof (intro conjI impI)
  assume "js_lt miles (Fin 500)"
  then have "\<not> js_ge miles (Fin 500)" by (rule js_lt_not_ge)
  then show "nearby_hospitals B center miles (loadHospitalData rows) =
      filter (\<lambda>h. isFinite B (h_lon h) \<and> isFinite B (h_lat h)
                   \<and> js_le (gcMiles B center (h_lon h, h_lat h)) miles) (loadHospitalData rows)"
    by (auto simp: nearby_hospitals_def h_ll_loadHospitalData intro!: filter_cong)
next
  assume "js_ge miles (Fin 500)"
  then show "nearby_hospitals B center miles (loadHospitalData rows) =
      filter (\<lambda>h. isFinite B (h_lon h) \<and> isFinite B (h_lat h)) (loadHospitalData rows)"
    by (simp add: nearby_hospitals_def)
qed

lemma isFinite_null: "isFinite B JNull"
  by (simp add: isFinite_def)

lemma blank_search:
  "fst (go sample_builtins sample_net blank_app all_form init_session) =
     Done [duke, blank_hospital]
          [(JNum (Fin 1), [rec_mri, rec_mri_est]), (JNum (Fin 5), [])] [''Aetna'', ''Cigna'']"
  by code_simp

text \<open>
  C3. The filter tests the coordinates with the global \<^verbatim>\<open>isFinite\<close>, which converts its
  argument to a number first: \<^verbatim>\<open>null\<close> becomes 0 and passes. A hospital whose row has no
  coordinates is therefore not excluded: in the sample search at the radius of 500 it is
  among the candidates, and it goes through the payer aggregation and the workers as the
  others do.
\<close>

theorem blank_coordinates_kept:
  "h_lat blank_hospital = JNull \<and> h_lon blank_hospital = JNull
   \<and> isFinite sample_builtins (h_lat blank_hospital)
   \<and> isFinite sample_builtins (h_lon blank_hospital)
   \<and> nearby_hospitals sample_builtins (JNum (Fin 0), JNum (Fin 0)) (Fin 500)
        (loadHospitalData [duke, blank_hospital]) = [duke, blank_hospital]
   \<and> fst (go sample_builtins sample_net blank_app all_form init_session) =
       Done [duke, blank_hospital]
            [(JNum (Fin 1), [rec_mri, rec_mri_est]), (JNum (Fin 5), [])] [''Aetna'', ''Cigna'']"
proof -
  have "h_lat blank_hospital = JNull \<and> h_lon blank_hospital = JNull
   \<and> isFinite sample_builtins (h_lat blank_hospital)
   \<and> isFinite sample_builtins (h_lon blank_hospital)"
    by (simp add: blank_hospital_def isFinite_def)
  moreover have "nearby_hospitals sample_builtins (JNum (Fin 0), JNum (Fin 0)) (Fin 500)
        (loadHospitalData [duke, blank_hospital]) = [duke, blank_hospital]"
    by code_simp
  ultimately show ?thesis using blank_search by blast
qed

subsection \<open>The cache\<close>

lemma load_uninterrupted:
  "loadHospitalJSON B net jsonPath st =
     (case startLoad jsonPath st of
        (Ready jsonData, st1) \<Rightarrow> (jsonData, st1)
      | (Pending p, st1) \<Rightarrow> finishLoad B (net (jsonUrl p)) p st1)"
  by (cases jsonPath)
     (auto simp: loadHospitalJSON_def startLoad_def finishLoad_def Let_def warn_def
           split: option.splits response.splits)

lemma startLoad_cached:
  "p \<noteq> [] \<Longrightarrow> jsonCache st p = Some d \<Longrightarrow> startLoad (JStr p) st = (Ready d, st)"
  by (simp add: startLoad_def)

lemma finishLoad_success:
  "fst (finishLoad B (HttpResponse True (Some content)) p st) = parse_text B content"
  "jsonCache (snd (finishLoad B (HttpResponse True (Some content)) p st)) p =
     Some (parse_text B content)"
  "parseLog (snd (finishLoad B (HttpResponse True (Some content)) p st)) = parseLog st @ [p]"
  by (simp_all add: finishLoad_def Let_def)

lemma finishLoad_keeps_cached:
  "jsonCache st p \<noteq> None \<Longrightarrow> jsonCache (snd (finishLoad B resp q st)) p \<noteq> None"
  by (auto simp: finishLoad_def Let_def warn_def split: response.splits option.splits)

lemma finishLoad_other:
  "q \<noteq> p \<Longrightarrow>
     jsonCache (snd (finishLoad B resp q st)) p = jsonCache st p
     \<and> count_list (parseLog (snd (finishLoad B resp q st))) p = count_list (parseLog st) p"
  by (auto simp: finishLoad_def Let_def warn_def split: response.splits option.splits)

lemma startLoad_cache: "jsonCache (snd (startLoad jsonPath st)) = jsonCache st"
  by (cases jsonPath) (auto simp: startLoad_def warn_def split: option.splits)

lemma startLoad_parseLog: "parseLog (snd (startLoad jsonPath st)) = parseLog st"
  by (cases jsonPath) (auto simp: startLoad_def warn_def split: option.splits)

lemma startLoad_pending: "fst (startLoad jsonPath st) = Pending q \<Longrightarrow> jsonCache st q = None"
  by (cases jsonPath) (auto simp: startLoad_def split: option.splits if_splits)

lemma step_keeps_cached:
  "jsonCache (fst s) p \<noteq> None \<Longrightarrow> jsonCache (fst (step_event B e s)) p \<noteq> None"
proof (cases s)
  case (Pair st inflight)
  assume c: "jsonCache (fst s) p \<noteq> None"
  show ?thesis
  proof (cases e)
    case (Begin jsonPath)
    obtain r st1 where r: "startLoad jsonPath st = (r, st1)" by (cases "startLoad jsonPath st")
    then have "jsonCache st1 = jsonCache st" using startLoad_cache [of jsonPath st] by simp
    with c Pair Begin r show ?thesis by (cases r) simp_all
  next
    case (Arrive q resp)
    from c Pair have "jsonCache (snd (finishLoad B resp q st)) p \<noteq> None"
      using finishLoad_keeps_cached [of st p B resp q] by simp
    with c Pair Arrive show ?thesis by auto
  qed
qed

lemma step_settled:
  assumes "jsonCache (fst s) p = Some d" and "p \<notin> set (snd s)"
  shows "jsonCache (fst (step_event B e s)) p = Some d
     \<and> p \<notin> set (snd (step_event B e s))
     \<and> count_list (parseLog (fst (step_event B e s))) p = count_list (parseLog (fst s)) p"
proof (cases s)
  case (Pair st inflight)
  show ?thesis
  proof (cases e)
    case (Begin jsonPath)
    obtain r st1 where r: "startLoad jsonPath st = (r, st1)" by (cases "startLoad jsonPath st")
    then have same: "jsonCache st1 = jsonCache st" "parseLog st1 = parseLog st"
      using startLoad_cache [of jsonPath st] startLoad_parseLog [of jsonPath st] by simp_all
    show ?thesis
    proof (cases r)
      case (Ready jsonData)
      with assms Pair Begin r same show ?thesis by simp
    next
      case (Pending q)
      with r have "jsonCache st q = None" using startLoad_pending [of jsonPath st q] by simp
      with assms Pair have "q \<noteq> p" by auto
      with assms Pair Begin r same Pending show ?thesis by simp
    qed
  next
    case (Arrive q resp)
    show ?thesis
    proof (cases "q \<in> set inflight")
      case True
      with assms Pair have "q \<noteq> p" by auto
      with assms Pair Arrive True show ?thesis
        by (auto simp: finishLoad_other dest: notin_set_remove1)
    next
      case False
      with assms Pair Arrive show ?thesis by simp
    qed
  qed
qed

lemma run_keeps_cached:
  "jsonCache (fst s) p \<noteq> None \<Longrightarrow> jsonCache (fst (run_events B es s)) p \<noteq> None"
proof (induction es arbitrary: s)
  case Nil
  then show ?case by simp
next
  case (Cons e es)
  from Cons.prems have "jsonCache (fst (step_event B e s)) p \<noteq> None"
    by (rule step_keeps_cached)
  from Cons.IH [OF this] show ?case by simp
qed

lemma run_settled:
  "jsonCache (fst s) p = Some d \<Longrightarrow> p \<notin> set (snd s) \<Longrightarrow>
     jsonCache (fst (run_events B es s)) p = Some d
     \<and> count_list (parseLog (fst (run_events B es s))) p = count_list (parseLog (fst s)) p"
proof (induction es arbitrary: s)
  case Nil
  then show ?case by simp
next
  case (Cons e es)
  from step_settled [OF Cons.prems, of B e]
  have a: "jsonCache (fst (step_event B e s)) p = Some d"
    and b: "p \<notin> set (snd (step_event B e s))"
    and c: "count_list (parseLog (fst (step_event B e s))) p = count_list (parseLog (fst s)) p"
    by simp_all
  from Cons.IH [OF a b] c show ?case by simp
qed

lemma shared_search:
  "(case go sample_builtins sample_net shared_app sample_form init_session of
      (out, st) \<Rightarrow>
        parseLog st = [''docs/data/duke.json'', ''docs/data/duke.json'']
        \<and> fetchLog st = [''data/duke.json'', ''data/duke.json''])"
  by code_simp

lemma overlapping_loads:
  "(case run_events sample_builtins
           [Begin (JStr ''docs/data/duke.json''), Begin (JStr ''docs/data/duke.json''),
            Arrive ''docs/data/duke.json'' duke_response] (init_session, []) of
      (st, inflight) \<Rightarrow>
        jsonCache st ''docs/data/duke.json'' = Some [rec_mri, rec_mri_est]
        \<and> parseLog st = [''docs/data/duke.json'']
        \<and> parseLog (fst (step_event sample_builtins (Arrive ''docs/data/duke.json'' duke_response)
                           (st, inflight))) =
            [''docs/data/duke.json'', ''docs/data/duke.json''])"
  by code_simp

text \<open>
  C4, as stated, fails: a file that has been loaded can be parsed again. Two loads of one
  path that are both called before the first response arrives both miss the cache and
  both fetch; when the first response has arrived the file is loaded and cached, and the
  second response is parsed all the same and replaces the entry. The payer aggregation
  starts the loads of all hospitals in radius together, so in the sample search over two
  hospitals that share a file the file is fetched twice and parsed twice.
\<close>

theorem shared_file_parsed_twice:
  "parseLog (snd (go sample_builtins sample_net shared_app sample_form init_session)) =
     [''docs/data/duke.json'', ''docs/data/duke.json'']
   \<and> fetchLog (snd (go sample_builtins sample_net shared_app sample_form init_session)) =
     [''data/duke.json'', ''data/duke.json'']
   \<and> jsonCache (fst (run_events sample_builtins
           [Begin (JStr ''docs/data/duke.json''), Begin (JStr ''docs/data/duke.json''),
            Arrive ''docs/data/duke.json'' duke_response] (init_session, [])))
         ''docs/data/duke.json'' = Some [rec_mri, rec_mri_est]
   \<and> parseLog (fst (run_events sample_builtins
           [Begin (JStr ''docs/data/duke.json''), Begin (JStr ''docs/data/duke.json''),
            Arrive ''docs/data/duke.json'' duke_response] (init_session, []))) =
       [''docs/data/duke.json'']
   \<and> parseLog (fst (run_events sample_builtins
           [Begin (JStr ''docs/data/duke.json''), Begin (JStr ''docs/data/duke.json''),
            Arrive ''docs/data/duke.json'' duke_response,
            Arrive ''docs/data/duke.json'' duke_response] (init_session, []))) =
       [''docs/data/duke.json'', ''docs/data/duke.json'']"
proof -
  have r: "run_events sample_builtins
           [Begin (JStr ''docs/data/duke.json''), Begin (JStr ''docs/data/duke.json''),
            Arrive ''docs/data/duke.json'' duke_response,
            Arrive ''docs/data/duke.json'' duke_response] (init_session, []) =
        step_event sample_builtins (Arrive ''docs/data/duke.json'' duke_response)
          (run_events sample_builtins
           [Begin (JStr ''docs/data/duke.json''), Begin (JStr ''docs/data/duke.json''),
            Arrive ''docs/data/duke.json'' duke_response] (init_session, []))"
    by simp
  note a = shared_search [unfolded case_prod_beta]
  note b = overlapping_loads [unfolded case_prod_beta prod.collapse]
  from a b show ?thesis unfolding r by blast
qed

text \<open>
  C4, amended. When a load of a non-empty path has completed with success, it has
  returned the parsed sequence, and every load of the path called from then on, whatever
  was called or has arrived in between, returns a cached sequence at once, without a fetch
  and without a parse. When no other load of the path is in flight at that completion, the
  sequence returned is that same parsed sequence, and the file is never parsed again: its
  count in the parse log stays one above what it was. Loads of one path that overlap are
  not merged: each of them fetches and parses.
\<close>

theorem cached_after_completed_load:
  assumes "p \<noteq> []"
  shows "fst (finishLoad B (HttpResponse True (Some content)) p st0) = parse_text B content
    \<and> (\<exists>d. startLoad (JStr p)
              (fst (run_events B es (snd (finishLoad B (HttpResponse True (Some content)) p st0), inflight))) =
            (Ready d,
             fst (run_events B es (snd (finishLoad B (HttpResponse True (Some content)) p st0), inflight))))
    \<and> (p \<notin> set inflight \<longrightarrow>
         startLoad (JStr p)
           (fst (run_events B es (snd (finishLoad B (HttpResponse True (Some content)) p st0), inflight))) =
         (Ready (parse_text B content),
          fst (run_events B es (snd (finishLoad B (HttpResponse True (Some content)) p st0), inflight)))
         \<and> loadHospitalJSON B net (JStr p)
           (fst (run_events B es (snd (finishLoad B (HttpResponse True (Some content)) p st0), inflight))) =
         (parse_text B content,
          fst (run_events B es (snd (finishLoad B (HttpResponse True (Some content)) p st0), inflight)))
         \<and> count_list (parseLog
             (fst (run_events B es (snd (finishLoad B (HttpResponse True (Some content)) p st0), inflight)))) p
           = Suc (count_list (parseLog st0) p))"
proof -
  let ?st1 = "snd (finishLoad B (HttpResponse True (Some content)) p st0)"
  let ?end = "fst (run_events B es (?st1, inflight))"
  have c1: "jsonCache (fst (?st1, inflight)) p = Some (parse_text B content)"
    by (simp add: finishLoad_success)
  then have "jsonCache ?end p \<noteq> None"
    using run_keeps_cached [of "(?st1, inflight)" p B es] by simp
  then obtain d where "jsonCache ?end p = Some d" by auto
  with assms have hit: "\<exists>d. startLoad (JStr p) ?end = (Ready d, ?end)"
    by (auto simp: startLoad_cached)
  have settled: "startLoad (JStr p) ?end = (Ready (parse_text B content), ?end)
      \<and> loadHospitalJSON B net (JStr p) ?end = (parse_text B content, ?end)
      \<and> count_list (parseLog ?end) p = Suc (count_list (parseLog st0) p)"
    if "p \<notin> set inflight"
  proof -
    from that have "p \<notin> set (snd (?st1, inflight))" by simp
    from run_settled [OF c1 this, of B es]
    have k: "jsonCache ?end p = Some (parse_text B content)"
      and n: "count_list (parseLog ?end) p = count_list (parseLog ?st1) p"
      by simp_all
    from assms k have s: "startLoad (JStr p) ?end = (Ready (parse_text B content), ?end)"
      by (rule startLoad_cached)
    then have "loadHospitalJSON B net (JStr p) ?end = (parse_text B content, ?end)"
      by (simp add: load_uninterrupted)
    with s n show ?thesis by (simp add: finishLoad_success)
  qed
  show ?thesis using hit settled by (simp add: finishLoad_success)
qed

text \<open>
  C4, amended, at the sample file: after its load has completed, another path is loaded
  and fails, and the file is asked for again.
\<close>

theorem cached_after_completed_load_witness:
  "''docs/data/duke.json'' \<noteq> []
   \<and> ''docs/data/duke.json'' \<notin> set []
   \<and> fst (finishLoad sample_builtins (HttpResponse True (Some duke_file)) ''docs/data/duke.json''
            init_session) = parse_text sample_builtins duke_file
   \<and> startLoad (JStr ''docs/data/duke.json'')
        (fst (run_events sample_builtins
           [Begin (JStr ''docs/data/other.json''), Arrive ''docs/data/other.json'' NetworkFailure,
            Begin (JStr ''docs/data/duke.json'')]
           (snd (finishLoad sample_builtins (HttpResponse True (Some duke_file))
                   ''docs/data/duke.json'' init_session), []))) =
       (Ready (parse_text sample_builtins duke_file),
        fst (run_events sample_builtins
           [Begin (JStr ''docs/data/other.json''), Arrive ''docs/data/other.json'' NetworkFailure,
            Begin (JStr ''docs/data/duke.json'')]
           (snd (finishLoad sample_builtins (HttpResponse True (Some duke_file))
                   ''docs/data/duke.json'' init_session), [])))
   \<and> count_list (parseLog
        (fst (run_events sample_builtins
           [Begin (JStr ''docs/data/other.json''), Arrive ''docs/data/other.json'' NetworkFailure,
            Begin (JStr ''docs/data/duke.json'')]
           (snd (finishLoad sample_builtins (HttpResponse True (Some duke_file))
                   ''docs/data/duke.json'' init_session), [])))) ''docs/data/duke.json''
       = Suc (count_list (parseLog init_session) ''docs/data/duke.json'')"
proof -
  have h1: "''docs/data/duke.json'' \<noteq> []" by simp
  have h2: "''docs/data/duke.json'' \<notin> set []" by simp
  note inst = cached_after_completed_load [where p = "''docs/data/duke.json''"
      and B = sample_builtins and content = duke_file and ?st0.0 = init_session
      and inflight = "[]" and net = sample_net
      and es = "[Begin (JStr ''docs/data/other.json''), Arrive ''docs/data/other.json'' NetworkFailure,
            Begin (JStr ''docs/data/duke.json'')]", OF h1]
  note first = inst [THEN conjunct1]
  note settled = mp [OF inst [THEN conjunct2, THEN conjunct2] h2]
  from h1 h2 first settled [THEN conjunct1] settled [THEN conjunct2, THEN conjunct2]
  show ?thesis by (intro conjI)
qed

text \<open>
  C5. A load with an empty or missing path returns the empty sequence and leaves the
  session as it is, the fetch log included. When the fetch of a path that is not cached
  fails (the network fails, or the status is not a success) the load returns the empty
  sequence, the cache is as before, and a second load of the path fetches again.
\<close>

theorem load_fails_soft:
  "(\<not> truthy jsonPath \<longrightarrow> loadHospitalJSON B net jsonPath st = ([], st))
   \<and> (p \<noteq> [] \<and> jsonCache st p = None
        \<and> (net (jsonUrl p) = NetworkFailure \<or> net (jsonUrl p) = HttpResponse False body) \<longrightarrow>
        fst (loadHospitalJSON B net (JStr p) st) = []
        \<and> jsonCache (snd (loadHospitalJSON B net (JStr p) st)) = jsonCache st
        \<and> fetchLog (snd (loadHospitalJSON B net (JStr p) st)) = fetchLog st @ [jsonUrl p]
        \<and> fetchLog (snd (loadHospitalJSON B net2 (JStr p)
                            (snd (loadHospitalJSON B net (JStr p) st)))) =
            fetchLog st @ [jsonUrl p, jsonUrl p])"
  by (auto simp: loadHospitalJSON_def Let_def warn_def split: option.splits response.splits)

text \<open>
  C5, at the sample network: the empty and the missing path, and a path the network
  fails on.
\<close>

theorem load_fails_soft_witness:
  "\<not> truthy (JStr []) \<and> \<not> truthy JUndefined
   \<and> loadHospitalJSON sample_builtins sample_net (JStr []) init_session = ([], init_session)
   \<and> loadHospitalJSON sample_builtins sample_net JUndefined init_session = ([], init_session)
   \<and> ''docs/data/other.json'' \<noteq> [] \<and> jsonCache init_session ''docs/data/other.json'' = None
   \<and> sample_net (jsonUrl ''docs/data/other.json'') = NetworkFailure
   \<and> fst (loadHospitalJSON sample_builtins sample_net (JStr ''docs/data/other.json'') init_session) = []
   \<and> fetchLog (snd (loadHospitalJSON sample_builtins sample_net (JStr ''docs/data/other.json'')
         (snd (loadHospitalJSON sample_builtins sample_net (JStr ''docs/data/other.json'') init_session))))
       = fetchLog init_session @ [jsonUrl ''docs/data/other.json'', jsonUrl ''docs/data/other.json'']"
proof -
  have e: "\<not> truthy (JStr [])" "\<not> truthy JUndefined" by simp_all
  have h: "''docs/data/other.json'' \<noteq> [] \<and> jsonCache init_session ''docs/data/other.json'' = None"
    by (simp add: init_session_def)
  have n: "sample_net (jsonUrl ''docs/data/other.json'') = NetworkFailure" by code_simp
  from e h n
    load_fails_soft [where jsonPath = "JStr []" and B = sample_builtins and net = sample_net
      and st = init_session and p = "''docs/data/other.json''" and ?net2.0 = sample_net]
    load_fails_soft [where jsonPath = JUndefined and B = sample_builtins and net = sample_net
      and st = init_session and p = "''docs/data/other.json''" and ?net2.0 = sample_net]
  show ?thesis by blast
qed

subsection \<open>The payer filter\<close>

lemma payer_filter_exact:
  "truthy (matchesPayer (JStr s) r) \<longleftrightarrow> s = [] \<or> get_prop r ''payer_name'' = JStr s"
  by (cases "get_prop r ''payer_name''")
     (auto simp: matchesPayer_def js_or_def js_and_def)

text \<open>
  C6. The filter compares the record's payer name as it stands in the file. The sample
  record's payer name is \<^verbatim>\<open>" Aetna "\<close>; the payer list offers it trimmed, as \<^verbatim>\<open>"Aetna"\<close>;
  with that payer selected the record does not pass, and the search that found the record
  without a payer finds nothing for the hospital.
\<close>

theorem payer_filter_compares_untrimmed:
  "get_prop rec_mri ''payer_name'' = JStr '' Aetna ''
   \<and> trim '' Aetna '' = ''Aetna''
   \<and> fst (collect_payers [rec_mri] []) = [''Aetna'']
   \<and> \<not> truthy (matchesPayer (JStr ''Aetna'') rec_mri)
   \<and> fst (go sample_builtins sample_net sample_app aetna_form init_session) =
       Done [duke] [(JNum (Fin 1), [])] [''Aetna'', ''Cigna'']"
  by code_simp

subsection \<open>Price and ratio\<close>

lemma num_or_positive: "js_gt (num_or rate (Fin 0)) (Fin 0) \<longleftrightarrow> js_gt rate (Fin 0)"
  by (cases rate) (simp_all add: num_or_def js_gt_def)

text \<open>
  C8, as stated, fails: for a code with no Medicare rate the ratio is \<^verbatim>\<open>"N/A"\<close>, not
  \<^verbatim>\<open>"unknown"\<close>.
\<close>

theorem ratio_is_not_unknown:
  "cmsRate sample_app (ToString sample_builtins (JStr ''99213'')) = None
   \<and> ratio_of sample_builtins (cmsRate sample_app) (JNum (Fin 100)) (JStr ''99213'') = ''N/A''
   \<and> ratio_of sample_builtins (cmsRate sample_app) (JNum (Fin 100)) (JStr ''99213'') \<noteq> ''unknown''"
  by code_simp

text \<open>
  C8, amended. An amount of 0 gives the price \<^verbatim>\<open>"N/A"\<close> and the ratio \<^verbatim>\<open>"N/A"\<close>, whatever
  the code. For every other amount that is a number, the ratio is the amount divided by the
  rate, with two decimals and the suffix \<^verbatim>\<open>x\<close>, when the code is not empty and its Medicare
  rate is there and above 0; otherwise the ratio is \<^verbatim>\<open>"N/A"\<close>.
\<close>

theorem ratio_by_medicare_rate:
  "formatPrice B cms (JNum (Fin 0)) code = (''N/A'', ''N/A'')
   \<and> (truthy_num amount \<longrightarrow>
        ratio_of B cms (JNum amount) code =
          (if truthy code
              \<and> (case cms (ToString B code) of Some rate \<Rightarrow> js_gt rate (Fin 0) | None \<Rightarrow> False)
           then toFixed2 B (fdiv B amount (the (cms (ToString B code)))) @ ''x''
           else ''N/A''))"
proof (intro conjI impI)
  show "formatPrice B cms (JNum (Fin 0)) code = (''N/A'', ''N/A'')"
    by (simp add: formatPrice_def)
next
  assume t: "truthy_num amount"
  then have ne: "amount \<noteq> Fin 0 \<and> amount \<noteq> NaN"
    by (cases amount) simp_all
  show "ratio_of B cms (JNum amount) code =
          (if truthy code
              \<and> (case cms (ToString B code) of Some rate \<Rightarrow> js_gt rate (Fin 0) | None \<Rightarrow> False)
           then toFixed2 B (fdiv B amount (the (cms (ToString B code)))) @ ''x''
           else ''N/A'')"
  proof (cases "cms (ToString B code)")
    case None
    with t ne show ?thesis
      by (simp add: ratio_of_def formatPrice_def Let_def js_gt_def)
  next
    case (Some rate)
    show ?thesis
    proof (cases "js_gt rate (Fin 0)")
      case True
      then have "num_or rate (Fin 0) = rate"
        by (cases rate) (simp_all add: num_or_def js_gt_def)
      with t ne Some True show ?thesis
        by (simp add: ratio_of_def formatPrice_def Let_def)
    next
      case False
      then have "\<not> js_gt (num_or rate (Fin 0)) (Fin 0)" by (simp add: num_or_positive)
      with t ne Some False show ?thesis
        by (simp add: ratio_of_def formatPrice_def Let_def)
    qed
  qed
qed

text \<open>
  C8, amended, at the sample rates: 100 against a rate of 50.
\<close>

theorem ratio_by_medicare_rate_witness:
  "truthy_num (Fin 100)
   \<and> ratio_of sample_builtins (cmsRate sample_app) (JNum (Fin 100)) (JStr ''70551'') = ''2.00x''
   \<and> formatPrice sample_builtins (cmsRate sample_app) (JNum (Fin 0)) (JStr ''70551'') = (''N/A'', ''N/A'')"
proof -
  have t: "truthy_num (Fin 100)" by simp
  have v: "(if truthy (JStr ''70551'')
              \<and> (case cmsRate sample_app (ToString sample_builtins (JStr ''70551'')) of
                    Some rate \<Rightarrow> js_gt rate (Fin 0) | None \<Rightarrow> False)
           then toFixed2 sample_builtins (fdiv sample_builtins (Fin 100)
                  (the (cmsRate sample_app (ToString sample_builtins (JStr ''70551''))))) @ ''x''
           else ''N/A'') = ''2.00x''"
    by code_simp
  note inst = ratio_by_medicare_rate [where B = sample_builtins and cms = "cmsRate sample_app"
      and amount = "Fin 100" and code = "JStr ''70551''"]
  from inst t have "ratio_of sample_builtins (cmsRate sample_app) (JNum (Fin 100)) (JStr ''70551'') =
      ''2.00x''"
    unfolding v by blast
  with inst t show ?thesis by blast
qed

subsection \<open>The ZIP that is searched\<close>




subsection \<open>The code that is shown\<close>

lemma num_or_keeps_positive: "js_gt rate (Fin 0) \<Longrightarrow> num_or rate (Fin 0) = rate"
  by (cases rate) (simp_all add: num_or_def js_gt_def)

lemma is_hit_no_payer: "is_hit B t field JNull r = matchesRegex B t field r"
  by (simp add: is_hit_def matchesPayer_def js_or_def js_and_def)

text \<open>
  C10. For a hit, the code cell shows the \<^verbatim>\<open>code\<close> field, and the price table has one row
  for each of the estimated, minimum and maximum amount that is present, whose price and
  ratio are those of \<^verbatim>\<open>formatPrice\<close> at that amount and at the \<^verbatim>\<open>code\<close> field. \<^verbatim>\<open>formatPrice\<close>
  reads the rate table at the string of the code it is given and nowhere else, and for a
  rate above 0 found there the ratio is the amount divided by that rate. So two records
  that differ in \<^verbatim>\<open>rc_code\<close> only are shown alike, and the configuration mode changes
  nothing. In revenue-code mode the pattern is tested on the description and on \<^verbatim>\<open>rc_code\<close>.
\<close>

theorem code_field_for_ratio_and_display:
  "(\<not> nullish r \<longrightarrow>
      price_item B a f r =
        (Inr (ToString B (js_or (get_prop r ''code'') (JStr []))),
         Inr (concat (map (\<lambda>(field, label).
                 if nullish (get_prop r field) then []
                 else [(label,
                        price_of B (cmsRate a) (get_prop r field)
                          (js_or (get_prop r ''code'') (JStr [])),
                        if unit_checked f
                        then Some (ratio_of B (cmsRate a) (get_prop r field)
                                     (js_or (get_prop r ''code'') (JStr [])))
                        else None)])
              [(''estimated_amount'', ''Estimate''), (''standard_charge_min'', ''Minimum''),
               (''standard_charge_max'', ''Maximum'')]))))
   \<and> (cms1 (ToString B code) = cms2 (ToString B code) \<longrightarrow>
        formatPrice B cms1 amount code = formatPrice B cms2 amount code)
   \<and> (truthy_num n \<and> truthy code \<and> cms (ToString B code) = Some rate \<and> js_gt rate (Fin 0) \<longrightarrow>
        ratio_of B cms (JNum n) code = toFixed2 B (fdiv B n rate) @ ''x'')
   \<and> ((\<forall>k. k \<noteq> ''rc_code'' \<longrightarrow> get_prop r1 k = get_prop r2 k) \<and> \<not> nullish r1 \<and> \<not> nullish r2 \<longrightarrow>
        price_item B a f r1 = price_item B a f r2)
   \<and> price_item B (a\<lparr>currentConfigType := c\<rparr>) f r = price_item B a f r
   \<and> (cfg \<noteq> ''service'' \<and> \<not> nullish r \<longrightarrow>
        is_hit B t (getSearchCodeField cfg) JNull r =
          (t (ToString B (js_or (get_prop r ''description'') (JStr [])))
           \<or> t (ToString B (js_or (get_prop r ''rc_code'') (JStr [])))))"
proof (intro conjI impI)
  assume "\<not> nullish r"
  then show "price_item B a f r =
        (Inr (ToString B (js_or (get_prop r ''code'') (JStr []))),
         Inr (concat (map (\<lambda>(field, label).
                 if nullish (get_prop r field) then []
                 else [(label,
                        price_of B (cmsRate a) (get_prop r field)
                          (js_or (get_prop r ''code'') (JStr [])),
                        if unit_checked f
                        then Some (ratio_of B (cmsRate a) (get_prop r field)
                                     (js_or (get_prop r ''code'') (JStr [])))
                        else None)])
              [(''estimated_amount'', ''Estimate''), (''standard_charge_min'', ''Minimum''),
               (''standard_charge_max'', ''Maximum'')])))"
    by (simp add: price_item_def displayed_code_def generatePriceTable_def getCodeField_def
        priceTypes_def price_row_def price_of_def ratio_of_def Let_def case_prod_beta)
next
  assume "cms1 (ToString B code) = cms2 (ToString B code)"
  then show "formatPrice B cms1 amount code = formatPrice B cms2 amount code"
    by (simp add: formatPrice_def)
next
  assume h: "truthy_num n \<and> truthy code \<and> cms (ToString B code) = Some rate \<and> js_gt rate (Fin 0)"
  then have "n \<noteq> Fin 0 \<and> n \<noteq> NaN" by (cases n) simp_all
  with h show "ratio_of B cms (JNum n) code = toFixed2 B (fdiv B n rate) @ ''x''"
    by (simp add: ratio_of_def formatPrice_def Let_def num_or_keeps_positive)
next
  assume h: "(\<forall>k. k \<noteq> ''rc_code'' \<longrightarrow> get_prop r1 k = get_prop r2 k) \<and> \<not> nullish r1 \<and> \<not> nullish r2"
  then have "get_prop r1 ''code'' = get_prop r2 ''code''"
    and "get_prop r1 ''estimated_amount'' = get_prop r2 ''estimated_amount''"
    and "get_prop r1 ''standard_charge_min'' = get_prop r2 ''standard_charge_min''"
    and "get_prop r1 ''standard_charge_max'' = get_prop r2 ''standard_charge_max''"
    by simp_all
  with h show "price_item B a f r1 = price_item B a f r2"
    by (simp add: price_item_def displayed_code_def generatePriceTable_def priceTypes_def
        price_row_def getCodeField_def)
next
  show "price_item B (a\<lparr>currentConfigType := c\<rparr>) f r = price_item B a f r"
    by (simp add: price_item_def)
next
  assume "cfg \<noteq> ''service'' \<and> \<not> nullish r"
  then show "is_hit B t (getSearchCodeField cfg) JNull r =
          (t (ToString B (js_or (get_prop r ''description'') (JStr [])))
           \<or> t (ToString B (js_or (get_prop r ''rc_code'') (JStr []))))"
    by (simp add: is_hit_no_payer matchesRegex_def getSearchCodeField_def Let_def)
qed

text \<open>
  C10, at the sample records. In revenue-code mode the third record, whose revenue code
  has a Medicare rate and whose code has none, is shown under its code with the ratio
  \<^verbatim>\<open>"N/A"\<close>; the first record is shown with the ratio at the rate of its code.
\<close>

theorem code_field_for_ratio_and_display_witness:
  "\<not> nullish rec_rc \<and> \<not> nullish rec_mri \<and> \<not> nullish rec_rc_other
   \<and> price_item sample_builtins (sample_app\<lparr>currentConfigType := ''revenue-code''\<rparr>) sample_form rec_rc =
       (Inr ''99213'', Inr [(''Estimate'', ''$200'', Some ''N/A'')])
   \<and> price_item sample_builtins sample_app sample_form rec_mri =
       (Inr ''70551'', Inr [(''Minimum'', ''$100'', Some ''2.00x'')])
   \<and> truthy_num (Fin 100) \<and> truthy (JStr ''70551'')
   \<and> cmsRate sample_app (ToString sample_builtins (JStr ''70551'')) = Some (Fin 50)
   \<and> js_gt (Fin 50) (Fin 0)
   \<and> ratio_of sample_builtins (cmsRate sample_app) (JNum (Fin 100)) (JStr ''70551'') =
       toFixed2 sample_builtins (fdiv sample_builtins (Fin 100) (Fin 50)) @ ''x''
   \<and> cmsRate sample_app (ToString sample_builtins (JStr ''70551'')) =
       ((cmsRate sample_app)(''99213'' \<mapsto> Fin 7)) (ToString sample_builtins (JStr ''70551''))
   \<and> formatPrice sample_builtins (cmsRate sample_app) (JNum (Fin 100)) (JStr ''70551'') =
       formatPrice sample_builtins ((cmsRate sample_app)(''99213'' \<mapsto> Fin 7)) (JNum (Fin 100))
         (JStr ''70551'')
   \<and> price_item sample_builtins sample_app sample_form rec_rc =
       price_item sample_builtins sample_app sample_form rec_rc_other
   \<and> ''revenue-code'' \<noteq> ''service''
   \<and> is_hit sample_builtins (contains ''70551'') (getSearchCodeField ''revenue-code'') JNull rec_rc
   \<and> \<not> is_hit sample_builtins (contains ''70551'') (getSearchCodeField ''revenue-code'') JNull
          rec_rc_other"
proof -
  have n: "\<not> nullish rec_rc" "\<not> nullish rec_mri" "\<not> nullish rec_rc_other"
    by (simp_all add: rec_rc_def rec_mri_def rec_rc_other_def)
  have c: "''revenue-code'' \<noteq> ''service''" by simp
  note shown = code_field_for_ratio_and_display [where r = rec_rc and B = sample_builtins
      and a = "sample_app\<lparr>currentConfigType := ''revenue-code''\<rparr>" and f = sample_form,
      THEN conjunct1]
  from shown n(1)
  have "price_item sample_builtins (sample_app\<lparr>currentConfigType := ''revenue-code''\<rparr>) sample_form
      rec_rc =
        (Inr (ToString sample_builtins (js_or (get_prop rec_rc ''code'') (JStr []))),
         Inr (concat (map (\<lambda>(field, label).
                 if nullish (get_prop rec_rc field) then []
                 else [(label,
                        price_of sample_builtins
                          (cmsRate (sample_app\<lparr>currentConfigType := ''revenue-code''\<rparr>))
                          (get_prop rec_rc field)
                          (js_or (get_prop rec_rc ''code'') (JStr [])),
                        if unit_checked sample_form
                        then Some (ratio_of sample_builtins
                                     (cmsRate (sample_app\<lparr>currentConfigType := ''revenue-code''\<rparr>))
                                     (get_prop rec_rc field)
                                     (js_or (get_prop rec_rc ''code'') (JStr [])))
                        else None)])
              [(''estimated_amount'', ''Estimate''), (''standard_charge_min'', ''Minimum''),
               (''standard_charge_max'', ''Maximum'')])))"
    by (rule mp)
  also have "\<dots> = (Inr ''99213'', Inr [(''Estimate'', ''$200'', Some ''N/A'')])"
    by code_simp
  finally have p1: "price_item sample_builtins (sample_app\<lparr>currentConfigType := ''revenue-code''\<rparr>)
      sample_form rec_rc = (Inr ''99213'', Inr [(''Estimate'', ''$200'', Some ''N/A'')])" .
  note shown' = code_field_for_ratio_and_display [where r = rec_mri and B = sample_builtins
      and a = sample_app and f = sample_form, THEN conjunct1]
  from shown' n(2)
  have "price_item sample_builtins sample_app sample_form rec_mri =
        (Inr (ToString sample_builtins (js_or (get_prop rec_mri ''code'') (JStr []))),
         Inr (concat (map (\<lambda>(field, label).
                 if nullish (get_prop rec_mri field) then []
                 else [(label,
                        price_of sample_builtins (cmsRate sample_app) (get_prop rec_mri field)
                          (js_or (get_prop rec_mri ''code'') (JStr [])),
                        if unit_checked sample_form
                        then Some (ratio_of sample_builtins (cmsRate sample_app)
                                     (get_prop rec_mri field)
                                     (js_or (get_prop rec_mri ''code'') (JStr [])))
                        else None)])
              [(''estimated_amount'', ''Estimate''), (''standard_charge_min'', ''Minimum''),
               (''standard_charge_max'', ''Maximum'')])))"
    by (rule mp)
  also have "\<dots> = (Inr ''70551'', Inr [(''Minimum'', ''$100'', Some ''2.00x'')])"
    by code_simp
  finally have p2: "price_item sample_builtins sample_app sample_form rec_mri =
      (Inr ''70551'', Inr [(''Minimum'', ''$100'', Some ''2.00x'')])" .
  have k: "truthy_num (Fin 100) \<and> truthy (JStr ''70551'')
      \<and> cmsRate sample_app (ToString sample_builtins (JStr ''70551'')) = Some (Fin 50)
      \<and> js_gt (Fin 50) (Fin 0)"
    by code_simp
  note rate = code_field_for_ratio_and_display [where n = "Fin 100" and code = "JStr ''70551''"
      and B = sample_builtins and cms = "cmsRate sample_app" and rate = "Fin 50",
      THEN conjunct2, THEN conjunct2, THEN conjunct1]
  from rate k
  have q: "ratio_of sample_builtins (cmsRate sample_app) (JNum (Fin 100)) (JStr ''70551'') =
       toFixed2 sample_builtins (fdiv sample_builtins (Fin 100) (Fin 50)) @ ''x''"
    by (rule mp)
  have u: "cmsRate sample_app (ToString sample_builtins (JStr ''70551'')) =
       ((cmsRate sample_app)(''99213'' \<mapsto> Fin 7)) (ToString sample_builtins (JStr ''70551''))"
    by simp
  note only_key = code_field_for_ratio_and_display [where ?cms1.0 = "cmsRate sample_app"
      and ?cms2.0 = "(cmsRate sample_app)(''99213'' \<mapsto> Fin 7)" and B = sample_builtins
      and code = "JStr ''70551''" and amount = "JNum (Fin 100)",
      THEN conjunct2, THEN conjunct1]
  from only_key u
  have w: "formatPrice sample_builtins (cmsRate sample_app) (JNum (Fin 100)) (JStr ''70551'') =
       formatPrice sample_builtins ((cmsRate sample_app)(''99213'' \<mapsto> Fin 7)) (JNum (Fin 100))
         (JStr ''70551'')"
    by (rule mp)
  have h: "(\<forall>k. k \<noteq> ''rc_code'' \<longrightarrow> get_prop rec_rc k = get_prop rec_rc_other k)
     \<and> \<not> nullish rec_rc \<and> \<not> nullish rec_rc_other"
    by (simp add: rec_rc_def rec_rc_other_def)
  note same = code_field_for_ratio_and_display [where ?r1.0 = rec_rc and ?r2.0 = rec_rc_other
      and B = sample_builtins and a = sample_app and f = sample_form,
      THEN conjunct2, THEN conjunct2, THEN conjunct2, THEN conjunct1]
  from same h have e: "price_item sample_builtins sample_app sample_form rec_rc =
       price_item sample_builtins sample_app sample_form rec_rc_other"
    by (rule mp)
  have m1: "contains ''70551'' (ToString sample_builtins (js_or (get_prop rec_rc ''description'') (JStr [])))
      \<or> contains ''70551'' (ToString sample_builtins (js_or (get_prop rec_rc ''rc_code'') (JStr [])))"
    by code_simp
  have m2: "\<not> (contains ''70551'' (ToString sample_builtins (js_or (get_prop rec_rc_other ''description'') (JStr [])))
      \<or> contains ''70551'' (ToString sample_builtins (js_or (get_prop rec_rc_other ''rc_code'') (JStr []))))"
    by code_simp
  note m = code_field_for_ratio_and_display [where cfg = "''revenue-code''"
      and B = sample_builtins and t = "contains ''70551''" and r = rec_rc,
      THEN conjunct2, THEN conjunct2, THEN conjunct2, THEN conjunct2, THEN conjunct2]
  note m' = code_field_for_ratio_and_display [where cfg = "''revenue-code''"
      and B = sample_builtins and t = "contains ''70551''" and r = rec_rc_other,
      THEN conjunct2, THEN conjunct2, THEN conjunct2, THEN conjunct2, THEN conjunct2]
  from m conjI [OF c n(1)]
  have "is_hit sample_builtins (contains ''70551'') (getSearchCodeField ''revenue-code'') JNull rec_rc =
      (contains ''70551'' (ToString sample_builtins (js_or (get_prop rec_rc ''description'') (JStr [])))
       \<or> contains ''70551'' (ToString sample_builtins (js_or (get_prop rec_rc ''rc_code'') (JStr []))))"
    by (rule mp)
  with m1 have q1: "is_hit sample_builtins (contains ''70551'')
      (getSearchCodeField ''revenue-code'') JNull rec_rc" by simp
  from m' conjI [OF c n(3)]
  have "is_hit sample_builtins (contains ''70551'') (getSearchCodeField ''revenue-code'') JNull
      rec_rc_other =
      (contains ''70551'' (ToString sample_builtins (js_or (get_prop rec_rc_other ''description'') (JStr [])))
       \<or> contains ''70551'' (ToString sample_builtins (js_or (get_prop rec_rc_other ''rc_code'') (JStr []))))"
    by (rule mp)
  with m2 have q2: "\<not> is_hit sample_builtins (contains ''70551'')
      (getSearchCodeField ''revenue-code'') JNull rec_rc_other" by simp
  from n p1 p2 k q u w e c q1 q2 show ?thesis by (intro conjI) simp_all
qed

subsection \<open>The effective amount\<close>

text \<open>
  C7. For every record, the effective amount is the first price field, in the order
  estimated amount, standard-charge-dollar, gross, minimum, maximum, whose numeric value is
  not zero, and it is 0 when every field is absent, null, zero or not a number.
\<close>

theorem amountOf_first_nonzero:
  "\<not> nullish r \<Longrightarrow>
     amountOf B r = Inr (effectiveAmount_spec B r) \<and>
     ((\<forall>f \<in> set price_fields. \<not> nonzero_numeric (ToNumber B (get_prop r f)))
        \<longrightarrow> amountOf B r = Inr (Fin 0))"
  by (simp add: amountOf_def effectiveAmount_spec_def price_fields_def num_or_def truthy_num_iff)

text \<open>
  C7, at a record whose estimated amount is zero and whose gross charge is null, and at a
  record with no price that is a number other than zero.
\<close>

theorem amountOf_first_nonzero_witness:
  "\<not> nullish rec_min_first
   \<and> amountOf sample_builtins rec_min_first = Inr (Fin 120)
   \<and> \<not> nullish rec_no_price
   \<and> list_all (\<lambda>f. \<not> nonzero_numeric (ToNumber sample_builtins (get_prop rec_no_price f)))
         price_fields
   \<and> amountOf sample_builtins rec_no_price = Inr (Fin 0)"
proof -
  have n: "\<not> nullish rec_min_first" "\<not> nullish rec_no_price"
    by (simp_all add: rec_min_first_def rec_no_price_def)
  have v: "effectiveAmount_spec sample_builtins rec_min_first = Fin 120"
    by code_simp
  have z: "\<forall>f \<in> set price_fields.
      \<not> nonzero_numeric (ToNumber sample_builtins (get_prop rec_no_price f))"
    by code_simp
  from amountOf_first_nonzero [OF n(1), where B = sample_builtins]
  have a: "amountOf sample_builtins rec_min_first = Inr (Fin 120)"
    unfolding v by blast
  from amountOf_first_nonzero [OF n(2), where B = sample_builtins] z
  have b: "amountOf sample_builtins rec_no_price = Inr (Fin 0)"
    by blast
  from z have z': "list_all (\<lambda>f. \<not> nonzero_numeric (ToNumber sample_builtins (get_prop rec_no_price f)))
         price_fields"
    by (simp add: list_all_iff)
  from n a z' b show ?thesis by blast
qed

end
